theory Spec2Isabelle
  imports Main "HOL-Library.Word"
begin

unbundle bit_operations_syntax

section \<open>The schedutil governor of kernel/sched/cpufreq_schedutil.c\<close>

text \<open>
  The governor is compiled for a 64-bit ARM target: \<open>unsigned int\<close> is a 32-bit word,
  \<open>unsigned long\<close> and \<open>u64\<close> are 64-bit words, and \<open>s64\<close> is a 64-bit word that
  is compared as a two's complement number (\<open><s\<close>, \<open>\<le>s\<close>). Arithmetic wraps as in C.
\<close>

type_synonym u32 = "32 word"
type_synonym u64 = "64 word"
type_synonym s64 = "64 word"

subsection \<open>Data\<close>

text \<open>
  The fields of \<open>struct cpufreq_policy\<close> that the governor reads or writes.
  \<open>pol_min\<close> and \<open>pol_max\<close> are \<open>policy->min\<close> and \<open>policy->max\<close>;
  \<open>cpuinfo_max_freq\<close> is \<open>policy->cpuinfo.max_freq\<close>.
\<close>

record cpufreq_policy =
  cpu :: nat
  cur :: u32
  pol_min :: u32
  pol_max :: u32
  cpuinfo_max_freq :: u32
  fast_switch_enabled :: bool
  related_cpus :: "nat set"

text \<open>
  \<open>struct sugov_policy\<close>. The type parameter is the \<open>policy\<close> pointer: the governor
  internals dereference it without a test, so there it is the policy itself; the PM QoS
  callback tests it against \<open>NULL\<close>, so there it is a \<open>cpufreq_policy option\<close>.
  Locks, the irq work and the work item carry no data and are left out.
\<close>

record 'p sugov_policy =
  policy :: 'p
  last_freq_update_time :: u64
  min_rate_limit_ns :: s64
  up_rate_delay_ns :: s64
  down_rate_delay_ns :: s64
  next_freq :: u32
  cached_raw_freq :: u32
  work_in_progress :: bool
  need_freq_update :: bool

text \<open>
  \<open>struct sugov_cpu\<close>. The back pointer \<open>sg_policy\<close> is not a field here: the
  functions below receive the policy group next to the per-CPU data and return it updated.
  \<open>max_val\<close> is the field \<open>max\<close>.
\<close>

record sugov_cpu =
  iowait_boost :: u64
  iowait_boost_max :: u64
  last_update :: u64
  util :: u64
  max_val :: u64
  flags :: u32
  saved_idle_calls :: u64

text \<open>
  What the file takes from the rest of the kernel: constants of headers that are not part
  of the file (\<open>TICK_NSEC\<close>, the \<open>SCHED_CPUFREQ_*\<close> flag bits), configuration
  (\<open>CONFIG_NO_HZ_COMMON\<close>, \<open>arch_scale_freq_invariant()\<close>), the CPU masks, the idle
  state of each CPU, \<open>panic_cpu\<close>, the driver's \<open>cpufreq_driver_resolve_freq\<close>, and
  \<open>cpufreq_cpu_get\<close> (\<open>None\<close> for \<open>NULL\<close>).
  A CPU mask is the set of its CPUs; \<open>nr_cpu_ids\<close> bounds every iteration over a mask.
\<close>

record kernel_env =
  TICK_NSEC :: s64
  SCHED_CPUFREQ_DL :: u32
  SCHED_CPUFREQ_IOWAIT :: u32
  arch_scale_freq_invariant :: bool
  CONFIG_NO_HZ_COMMON :: bool
  nr_cpu_ids :: nat
  cpu_online_mask :: "nat set"
  cpu_coregroup_mask0 :: "nat set"
  idle_cpu :: "nat \<Rightarrow> bool"
  panic_cpu :: int
  cpufreq_driver_resolve_freq :: "cpufreq_policy \<Rightarrow> u32 \<Rightarrow> u32"
  cpu_possible_mask :: "nat set"
  cpu_active_mask :: "nat set"
  cpufreq_cpu_get :: "nat \<Rightarrow> cpufreq_policy option"

definition UINT_MAX :: u32 where
  "UINT_MAX = 0xFFFFFFFF"

text \<open>\<open>CPUFREQ_ENTRY_INVALID\<close> is \<open>~0u\<close> in \<open>linux/cpufreq.h\<close>.\<close>

definition CPUFREQ_ENTRY_INVALID :: u32 where
  "CPUFREQ_ENTRY_INVALID = 0xFFFFFFFF"

definition PANIC_CPU_INVALID :: int where
  "PANIC_CPU_INVALID = - 1"

definition NSEC_PER_USEC :: s64 where
  "NSEC_PER_USEC = 1000"

text \<open>
  \<open>for_each_cpu(j, m)\<close> visits the CPUs of a mask in increasing order;
  \<open>for_each_cpu_and(j, m1, m2)\<close> those of both masks.
\<close>

definition for_each_cpu :: "kernel_env \<Rightarrow> nat set \<Rightarrow> nat list" where
  "for_each_cpu env m = filter (\<lambda>j. j \<in> m) [0..<nr_cpu_ids env]"

definition for_each_cpu_and :: "kernel_env \<Rightarrow> nat set \<Rightarrow> nat set \<Rightarrow> nat list" where
  "for_each_cpu_and env m1 m2 = filter (\<lambda>j. j \<in> m1 \<and> j \<in> m2) [0..<nr_cpu_ids env]"

subsection \<open>The two gates of the rate limiter\<close>

text \<open>
  \<open>sugov_should_update_freq\<close> returns its verdict and the policy group, in which it may
  have cleared \<open>need_freq_update\<close> and forgotten \<open>next_freq\<close>.
\<close>

definition sugov_should_update_freq ::
  "'p sugov_policy \<Rightarrow> u64 \<Rightarrow> bool \<times> 'p sugov_policy" where
  "sugov_should_update_freq sg_policy time =
     (if work_in_progress sg_policy then (False, sg_policy)
      else if need_freq_update sg_policy then
        (True, sg_policy\<lparr>need_freq_update := False, next_freq := UINT_MAX\<rparr>)
      else
        (let delta_ns = time - last_freq_update_time sg_policy
         in (min_rate_limit_ns sg_policy \<le>s delta_ns, sg_policy)))"

definition sugov_up_down_rate_limit :: "'p sugov_policy \<Rightarrow> u64 \<Rightarrow> u32 \<Rightarrow> bool" where
  "sugov_up_down_rate_limit sg_policy time nf =
     (let delta_ns = time - last_freq_update_time sg_policy
      in if next_freq sg_policy < nf \<and> delta_ns <s up_rate_delay_ns sg_policy then True
         else if nf < next_freq sg_policy \<and> delta_ns <s down_rate_delay_ns sg_policy then True
         else False)"

subsection \<open>Dispatch\<close>

text \<open>
  \<open>sugov_select_scaling_cpu\<close>: the first idle CPU of the online part of core group 0;
  with an empty mask the panic CPU if there is one; otherwise the weight of the mask
  minus one (an \<open>int\<close>, so \<open>-1\<close> for the empty mask).
\<close>

definition sugov_select_scaling_cpu :: "kernel_env \<Rightarrow> int" where
  "sugov_select_scaling_cpu env =
     (let mask = for_each_cpu_and env (cpu_coregroup_mask0 env) (cpu_online_mask env)
      in case find (idle_cpu env) mask of
           Some c \<Rightarrow> int c
         | None \<Rightarrow>
             if length mask = 0 \<and> panic_cpu env \<noteq> PANIC_CPU_INVALID then panic_cpu env
             else int (length mask) - 1)"

text \<open>
  What a function asks of the worker or of the hardware: the irq work queued on a CPU, and
  the blocking \<open>__cpufreq_driver_target\<close> (always with \<open>CPUFREQ_RELATION_L\<close>).
  Trace points are left out.
\<close>

datatype effect =
  Irq_work_queue_on int
| Driver_target cpufreq_policy u32

text \<open>
  In this file \<open>cpufreq_driver_fast_switch(x, y)\<close> is a macro that expands to \<open>0\<close>:
  no driver routine is called.
\<close>

definition cpufreq_driver_fast_switch :: "cpufreq_policy \<Rightarrow> u32 \<Rightarrow> u32" where
  "cpufreq_driver_fast_switch p f = 0"

text \<open>
  \<open>sugov_update_commit\<close> returns the policy group and the requests it made.
\<close>

definition sugov_update_commit ::
  "kernel_env \<Rightarrow> cpufreq_policy sugov_policy \<Rightarrow> u64 \<Rightarrow> u32
     \<Rightarrow> cpufreq_policy sugov_policy \<times> effect list" where
  "sugov_update_commit env sg_policy time nf =
     (if sugov_up_down_rate_limit sg_policy time nf then
        (sg_policy\<lparr>cached_raw_freq := 0\<rparr>, [])
      else if next_freq sg_policy = nf then (sg_policy, [])
      else
        (let sg1 = sg_policy\<lparr>next_freq := nf, last_freq_update_time := time\<rparr>
         in if fast_switch_enabled (policy sg1) then
              (let nf' = cpufreq_driver_fast_switch (policy sg1) nf
               in if nf' = CPUFREQ_ENTRY_INVALID then (sg1, [])
                  else (sg1\<lparr>policy := (policy sg1)\<lparr>cur := nf'\<rparr>\<rparr>, []))
            else
              (let c = sugov_select_scaling_cpu env
               in if c < 0 then (sg1, [])
                  else (sg1\<lparr>work_in_progress := True\<rparr>, [Irq_work_queue_on c]))))"

subsection \<open>Frequency selection\<close>

text \<open>The variant of \<open>freqvar_tipping_point\<close> defined in the file; the CPU is not used.\<close>

definition freqvar_tipping_point :: "nat \<Rightarrow> u32 \<Rightarrow> u32" where
  "freqvar_tipping_point c freq = freq + drop_bit 2 freq"

text \<open>
  \<open>get_next_freq\<close>. The product is taken in \<open>unsigned long\<close> and the quotient is cut to
  \<open>unsigned int\<close> by the assignment. Dividing by \<open>max = 0\<close> is undefined in C: the
  model has no result there (\<open>None\<close>). The result is the frequency and the policy group
  with its cache.
\<close>

definition get_next_freq ::
  "kernel_env \<Rightarrow> cpufreq_policy sugov_policy \<Rightarrow> u64 \<Rightarrow> u64
     \<Rightarrow> (u32 \<times> cpufreq_policy sugov_policy) option" where
  "get_next_freq env sg_policy u m =
     (if m = 0 then None
      else
        (let p = policy sg_policy;
             freq0 = (if arch_scale_freq_invariant env then pol_max p else cur p);
             freq = (ucast ((ucast (freqvar_tipping_point (cpu p) freq0) :: u64) * u div m) :: u32)
         in if freq = cached_raw_freq sg_policy \<and> next_freq sg_policy \<noteq> UINT_MAX
            then Some (next_freq sg_policy, sg_policy)
            else Some (cpufreq_driver_resolve_freq env p freq,
                       sg_policy\<lparr>cached_raw_freq := freq\<rparr>)))"

subsection \<open>Utilization and the iowait boost\<close>

text \<open>
  What \<open>sugov_get_util\<close> reads of the run queue and of the scheduler's configuration.
\<close>

record util_source =
  boosted_cpu_util :: u64
  sched_feat_UTIL_EST :: bool
  util_est_enqueued :: u64
  rt_avg :: u64
  sched_rt_remove_ratio_for_freq :: u32
  use_pelt :: bool
  arch_scale_cpu_capacity :: u64

definition sugov_get_util :: "util_source \<Rightarrow> u64 \<times> u64" where
  "sugov_get_util src =
     (let max_cap = arch_scale_cpu_capacity src;
          u0 = boosted_cpu_util src;
          u1 = (if sched_feat_UTIL_EST src then max u0 (util_est_enqueued src) else u0);
          u2 = (if sched_rt_remove_ratio_for_freq src \<noteq> 0
                then u1 - (rt_avg src * ucast (sched_rt_remove_ratio_for_freq src)) div 100
                else u1);
          u3 = (if use_pelt src then min u2 max_cap else u2)
      in (u3, max_cap))"

definition sugov_set_iowait_boost :: "kernel_env \<Rightarrow> sugov_cpu \<Rightarrow> u64 \<Rightarrow> u32 \<Rightarrow> sugov_cpu" where
  "sugov_set_iowait_boost env sg_cpu time fl =
     (let sg1 =
        (if fl AND SCHED_CPUFREQ_IOWAIT env \<noteq> 0 then
           sg_cpu\<lparr>iowait_boost := iowait_boost_max sg_cpu\<rparr>
         else if iowait_boost sg_cpu \<noteq> 0 then
           (let delta_ns = time - last_update sg_cpu
            in if TICK_NSEC env <s delta_ns then sg_cpu\<lparr>iowait_boost := 0\<rparr> else sg_cpu)
         else sg_cpu)
      in sg1\<lparr>iowait_boost := 0\<rparr>)"

text \<open>\<open>sugov_iowait_boost\<close> returns the per-CPU data and the pair \<open>(*util, *max)\<close>.\<close>

definition sugov_iowait_boost :: "sugov_cpu \<Rightarrow> u64 \<Rightarrow> u64 \<Rightarrow> sugov_cpu \<times> u64 \<times> u64" where
  "sugov_iowait_boost sg_cpu u m =
     (let boost_util = iowait_boost sg_cpu;
          boost_max = iowait_boost_max sg_cpu
      in if boost_util = 0 then (sg_cpu, u, m)
         else
           (let (u', m') = (if u * boost_max < m * boost_util then (boost_util, boost_max)
                            else (u, m))
            in (sg_cpu\<lparr>iowait_boost := drop_bit 1 (iowait_boost sg_cpu)\<rparr>, u', m')))"

text \<open>
  \<open>sugov_cpu_is_busy\<close>; \<open>idle_calls\<close> is what \<open>tick_nohz_get_idle_calls()\<close> returns.
  Without \<open>CONFIG_NO_HZ_COMMON\<close> the function is the constant \<open>false\<close>.
\<close>

definition sugov_cpu_is_busy :: "kernel_env \<Rightarrow> sugov_cpu \<Rightarrow> u64 \<Rightarrow> bool \<times> sugov_cpu" where
  "sugov_cpu_is_busy env sg_cpu idle_calls =
     (if CONFIG_NO_HZ_COMMON env
      then (idle_calls = saved_idle_calls sg_cpu, sg_cpu\<lparr>saved_idle_calls := idle_calls\<rparr>)
      else (False, sg_cpu))"

subsection \<open>The update of a single-CPU policy\<close>

definition sugov_update_single ::
  "kernel_env \<Rightarrow> util_source \<Rightarrow> u64
     \<Rightarrow> sugov_cpu \<Rightarrow> cpufreq_policy sugov_policy \<Rightarrow> u64 \<Rightarrow> u32
     \<Rightarrow> (sugov_cpu \<times> cpufreq_policy sugov_policy \<times> effect list) option" where
  "sugov_update_single env src idle_calls sg_cpu sg_policy time fl =
     (let c1 = (sugov_set_iowait_boost env sg_cpu time fl)\<lparr>last_update := time\<rparr>;
          (ok, sg1) = sugov_should_update_freq sg_policy time
      in if \<not> ok then Some (c1, sg1, [])
         else
           (let (busy, c2) = sugov_cpu_is_busy env c1 idle_calls
            in if fl AND SCHED_CPUFREQ_DL env \<noteq> 0 then
                 (let (sg2, es) = sugov_update_commit env sg1 time (cpuinfo_max_freq (policy sg1))
                  in Some (c2, sg2, es))
               else
                 (let (u, m) = sugov_get_util src;
                      (c3, u', m') = sugov_iowait_boost c2 u m
                  in case get_next_freq env sg1 u' m' of
                       None \<Rightarrow> None
                     | Some (next_f, sg2) \<Rightarrow>
                         (let (next_f', sg3) =
                                (if busy \<and> next_f < next_freq sg2
                                 then (next_freq sg2, sg2\<lparr>cached_raw_freq := 0\<rparr>)
                                 else (next_f, sg2));
                              (sg4, es) = sugov_update_commit env sg3 time next_f'
                          in Some (c3, sg4, es)))))"

subsection \<open>Aggregation over a shared policy\<close>

text \<open>
  The loop of \<open>sugov_next_freq_shared\<close> over the CPUs \<open>js\<close>, on the per-CPU data
  \<open>pc\<close> and the running pair \<open>(u, m)\<close>. \<open>None\<close> is the early return for a deadline
  request.
\<close>

fun sugov_next_freq_shared_loop ::
  "kernel_env \<Rightarrow> u64 \<Rightarrow> nat list \<Rightarrow> (nat \<Rightarrow> sugov_cpu) \<Rightarrow> u64 \<Rightarrow> u64
     \<Rightarrow> (nat \<Rightarrow> sugov_cpu) \<times> (u64 \<times> u64) option" where
  "sugov_next_freq_shared_loop env time [] pc u m = (pc, Some (u, m))"
| "sugov_next_freq_shared_loop env time (j # js) pc u m =
     (let j_sg_cpu = pc j;
          delta_ns = time - last_update j_sg_cpu
      in if TICK_NSEC env <s delta_ns then
           sugov_next_freq_shared_loop env time js (pc(j := j_sg_cpu\<lparr>iowait_boost := 0\<rparr>)) u m
         else if flags j_sg_cpu AND SCHED_CPUFREQ_DL env \<noteq> 0 then (pc, None)
         else
           (let j_util = util j_sg_cpu;
                j_max = max_val j_sg_cpu;
                (u1, m1) = (if j_max * u < j_util * m then (j_util, j_max) else (u, m));
                (c', u2, m2) = sugov_iowait_boost j_sg_cpu u1 m1
            in sugov_next_freq_shared_loop env time js (pc(j := c')) u2 m2))"

definition sugov_next_freq_shared ::
  "kernel_env \<Rightarrow> (nat \<Rightarrow> sugov_cpu) \<Rightarrow> cpufreq_policy sugov_policy \<Rightarrow> u64
     \<Rightarrow> (u32 \<times> (nat \<Rightarrow> sugov_cpu) \<times> cpufreq_policy sugov_policy) option" where
  "sugov_next_freq_shared env pc sg_policy time =
     (case sugov_next_freq_shared_loop env time
             (for_each_cpu_and env (related_cpus (policy sg_policy)) (cpu_online_mask env))
             pc 0 1 of
        (pc', None) \<Rightarrow> Some (cpuinfo_max_freq (policy sg_policy), pc', sg_policy)
      | (pc', Some (u, m)) \<Rightarrow>
          (case get_next_freq env sg_policy u m of
             None \<Rightarrow> None
           | Some (f, sg') \<Rightarrow> Some (f, pc', sg')))"

subsection \<open>The PM QoS minimum notification\<close>

record sugov_exynos =
  slack_min :: u64
  enabled :: int
  started :: bool
  expired_time :: int
  qos_min_class :: int

datatype errno = EINVAL

datatype notify = NOTIFY_OK | NOTIFY_BAD

definition find_cpu_pm_qos_class ::
  "kernel_env \<Rightarrow> (nat \<Rightarrow> sugov_exynos) \<Rightarrow> int \<Rightarrow> errno + nat" where
  "find_cpu_pm_qos_class env ex pm_qos_class =
     (case find (\<lambda>c. qos_min_class (ex c) = pm_qos_class \<and> c \<in> cpu_active_mask env)
             (for_each_cpu env (cpu_possible_mask env)) of
        Some c \<Rightarrow> Inr c
      | None \<Rightarrow> Inl EINVAL)"

text \<open>
  \<open>sugov_pm_qos_callback\<close>. \<open>ex\<close> is the per-CPU \<open>sugov_exynos\<close>; \<open>sgp c\<close> is the
  pointer \<open>sg_policy\<close> of CPU \<open>c\<close>'s \<open>sugov_cpu\<close> (\<open>None\<close> for \<open>NULL\<close>), whose own
  \<open>policy\<close> pointer may be \<open>NULL\<close> too. \<open>val\<close> is an \<open>unsigned long\<close>.
\<close>

definition sugov_pm_qos_callback ::
  "kernel_env \<Rightarrow> (nat \<Rightarrow> sugov_exynos) \<Rightarrow> (nat \<Rightarrow> cpufreq_policy option sugov_policy option)
     \<Rightarrow> u64 \<Rightarrow> int \<Rightarrow> notify \<times> effect list" where
  "sugov_pm_qos_callback env ex sgp val pm_qos_class =
     (case find_cpu_pm_qos_class env ex pm_qos_class of
        Inl e \<Rightarrow> (NOTIFY_BAD, [])
      | Inr c \<Rightarrow>
          (case sgp c of
             None \<Rightarrow> (NOTIFY_BAD, [])
           | Some sg \<Rightarrow>
               (case policy sg of
                  None \<Rightarrow> (NOTIFY_BAD, [])
                | Some p0 \<Rightarrow>
                    (let nf = next_freq sg
                     in case cpufreq_cpu_get env c of
                          None \<Rightarrow> (NOTIFY_BAD, [])
                        | Some p \<Rightarrow>
                            if ucast (cur p) \<le> val then (NOTIFY_BAD, [])
                            else (NOTIFY_OK, [Driver_target p nf])))))"

subsection \<open>The aggregation as the specification words it\<close>

text \<open>
  Section 4.4 of the specification, to be compared with \<open>sugov_next_freq_shared\<close>: a
  core is stale when its last sample is older than one tick; each core that is not stale
  contributes its own pair after the iowait-boost substitution of section 4.2; the pair
  with the greatest ratio is chosen by cross-multiplication, starting from the pair
  \<open>(0, 1)\<close>; a deadline request on a core that is not stale gives the maximum frequency.
\<close>

definition spec_stale :: "kernel_env \<Rightarrow> u64 \<Rightarrow> sugov_cpu \<Rightarrow> bool" where
  "spec_stale env time c \<longleftrightarrow> TICK_NSEC env <s time - last_update c"

definition spec_iowait_pair :: "sugov_cpu \<Rightarrow> u64 \<times> u64" where
  "spec_iowait_pair c =
     (if iowait_boost c \<noteq> 0 \<and> util c * iowait_boost_max c < max_val c * iowait_boost c
      then (iowait_boost c, iowait_boost_max c)
      else (util c, max_val c))"

definition spec_pick :: "u64 \<times> u64 \<Rightarrow> u64 \<times> u64 \<Rightarrow> u64 \<times> u64" where
  "spec_pick best p = (if snd p * fst best < fst p * snd best then p else best)"

definition spec_max_ratio :: "u64 \<times> u64 \<Rightarrow> (u64 \<times> u64) list \<Rightarrow> u64 \<times> u64" where
  "spec_max_ratio best ps = foldl spec_pick best ps"

definition spec_next_freq_shared ::
  "kernel_env \<Rightarrow> (nat \<Rightarrow> sugov_cpu) \<Rightarrow> cpufreq_policy sugov_policy \<Rightarrow> u64
     \<Rightarrow> (u32 \<times> cpufreq_policy sugov_policy) option" where
  "spec_next_freq_shared env pc sg_policy time =
     (let fresh = filter (\<lambda>j. \<not> spec_stale env time (pc j))
            (for_each_cpu_and env (related_cpus (policy sg_policy)) (cpu_online_mask env))
      in if list_ex (\<lambda>j. flags (pc j) AND SCHED_CPUFREQ_DL env \<noteq> 0) fresh
         then Some (cpuinfo_max_freq (policy sg_policy), sg_policy)
         else
           (case spec_max_ratio (0, 1) (map (\<lambda>j. spec_iowait_pair (pc j)) fresh) of
              (u, m) \<Rightarrow> get_next_freq env sg_policy u m))"

text \<open>
  The samples on which the cross-multiplications are exact: utilization, capacity and
  boost below \<open>2 ^ 32\<close>, so that no product wraps in 64 bits, and positive capacities.
  \<open>ratio_le p q\<close> says that the ratio of the pair \<open>p\<close> is at most the ratio of \<open>q\<close>.
\<close>

definition sample_in_range :: "sugov_cpu \<Rightarrow> bool" where
  "sample_in_range c \<longleftrightarrow>
     util c < 2 ^ 32 \<and> 0 < max_val c \<and> max_val c < 2 ^ 32
     \<and> iowait_boost c < 2 ^ 32 \<and> 0 < iowait_boost_max c \<and> iowait_boost_max c < 2 ^ 32"

definition pair_in_range :: "u64 \<times> u64 \<Rightarrow> bool" where
  "pair_in_range p \<longleftrightarrow> fst p < 2 ^ 32 \<and> 0 < snd p \<and> snd p < 2 ^ 32"

definition ratio_le :: "u64 \<times> u64 \<Rightarrow> u64 \<times> u64 \<Rightarrow> bool" where
  "ratio_le p q \<longleftrightarrow> unat (fst p) * unat (snd q) \<le> unat (fst q) * unat (snd p)"

subsection \<open>The driver's resolution\<close>

text \<open>
  Modelled from the spec: \<open>cpufreq_driver_resolve_freq\<close> belongs to the cpufreq core
  and the hardware driver and is not part of the file. Section 4.1 of the specification:
  the candidate is resolved ``to the lowest hardware-supported frequency \<open>\<ge>\<close> candidate''.
  \<open>table\<close> lists the frequencies the hardware supports; there is no result when none
  of them reaches the candidate.
\<close>

definition spec_lowest_supported :: "u32 list \<Rightarrow> u32 \<Rightarrow> u32 option" where
  "spec_lowest_supported table f =
     (case filter (\<lambda>s. f \<le> s) table of
        [] \<Rightarrow> None
      | s # ss \<Rightarrow> Some (fold min ss s))"

text \<open>
  Modelled from the spec: the whole resolution of section 4.1, ``the lowest
  hardware-supported frequency \<open>\<ge>\<close> candidate, clamped to the group's configured
  min/max''. Where no supported frequency reaches the candidate the specification is
  silent; the candidate itself is clamped then.
\<close>

definition spec_cpufreq_driver_resolve_freq :: "u32 list \<Rightarrow> cpufreq_policy \<Rightarrow> u32 \<Rightarrow> u32" where
  "spec_cpufreq_driver_resolve_freq table p f =
     (let r = (case spec_lowest_supported table f of Some s \<Rightarrow> s | None \<Rightarrow> f)
      in max (pol_min p) (min (pol_max p) r))"

subsection \<open>A concrete platform\<close>

text \<open>
  Eight CPUs, the first four in core group 0, a 250 Hz tick, the flag bits of
  \<open>linux/sched.h\<close>, and a driver without a frequency table, whose resolution clamps
  the request to the limits of the policy.
\<close>

definition example_resolve :: "cpufreq_policy \<Rightarrow> u32 \<Rightarrow> u32" where
  "example_resolve p f = max (pol_min p) (min (pol_max p) f)"

definition example_policy :: cpufreq_policy where
  "example_policy =
     \<lparr>cpu = 0, cur = 949000, pol_min = 455000, pol_max = 1794000,
      cpuinfo_max_freq = 1794000, fast_switch_enabled = False, related_cpus = {0, 1, 2, 3}\<rparr>"

definition example_env :: kernel_env where
  "example_env =
     \<lparr>TICK_NSEC = 4000000, SCHED_CPUFREQ_DL = 2, SCHED_CPUFREQ_IOWAIT = 4,
      arch_scale_freq_invariant = True, CONFIG_NO_HZ_COMMON = True, nr_cpu_ids = 8,
      cpu_online_mask = {0, 1, 2, 3, 4, 5, 6, 7}, cpu_coregroup_mask0 = {0, 1, 2, 3},
      idle_cpu = (\<lambda>c. c = 2), panic_cpu = - 1,
      cpufreq_driver_resolve_freq = example_resolve,
      cpu_possible_mask = {0, 1, 2, 3, 4, 5, 6, 7}, cpu_active_mask = {0, 1, 2, 3, 4, 5, 6, 7},
      cpufreq_cpu_get = (\<lambda>c. if c < 4 then Some example_policy else None)\<rparr>"

definition example_sg_policy :: "cpufreq_policy sugov_policy" where
  "example_sg_policy =
     \<lparr>policy = example_policy, last_freq_update_time = 100000000,
      min_rate_limit_ns = 2000 * NSEC_PER_USEC, up_rate_delay_ns = 2000 * NSEC_PER_USEC,
      down_rate_delay_ns = 20000 * NSEC_PER_USEC, next_freq = 949000,
      cached_raw_freq = 949000, work_in_progress = False, need_freq_update = False\<rparr>"

definition example_sg_cpu :: sugov_cpu where
  "example_sg_cpu =
     \<lparr>iowait_boost = 897000, iowait_boost_max = 1794000, last_update = 100000000,
      util = 300, max_val = 1024, flags = 0, saved_idle_calls = 7\<rparr>"


text \<open>
  A platform whose driver resolves as the specification says, over a table of nine
  frequencies of which the policy, capped at 1794000, allows the first seven; the capped
  group with the raw frequency of a utilization of 800 out of 1024 in its cache; a
  utilization source; and the per-CPU data of the PM QoS callback: CPUs 0 to 3 belong to
  class 3 and share a policy group whose committed target is 715000, CPUs 4 to 7 belong
  to class 5 and have no policy group.
\<close>

definition example_freq_table :: "u32 list" where
  "example_freq_table =
     [455000, 715000, 949000, 1248000, 1456000, 1690000, 1794000, 2002000, 2314000]"

definition example_capped_policy :: cpufreq_policy where
  "example_capped_policy = example_policy\<lparr>cpuinfo_max_freq := 2314000\<rparr>"

definition example_capped_group :: "cpufreq_policy sugov_policy" where
  "example_capped_group = example_sg_policy\<lparr>policy := example_capped_policy\<rparr>"

definition example_table_env :: kernel_env where
  "example_table_env =
     example_env\<lparr>cpufreq_driver_resolve_freq :=
       spec_cpufreq_driver_resolve_freq example_freq_table\<rparr>"

definition example_cached_policy :: "cpufreq_policy sugov_policy" where
  "example_cached_policy = example_capped_group\<lparr>cached_raw_freq := 1751953\<rparr>"

definition example_util_source :: util_source where
  "example_util_source =
     \<lparr>boosted_cpu_util = 300, sched_feat_UTIL_EST = False, util_est_enqueued = 0, rt_avg = 0,
      sched_rt_remove_ratio_for_freq = 0, use_pelt = True, arch_scale_cpu_capacity = 1024\<rparr>"

definition example_exynos :: "nat \<Rightarrow> sugov_exynos" where
  "example_exynos c =
     \<lparr>slack_min = 0, enabled = 1, started = True, expired_time = 70,
      qos_min_class = (if c < 4 then 3 else 5)\<rparr>"

definition example_qos_policy :: "cpufreq_policy option sugov_policy" where
  "example_qos_policy =
     \<lparr>policy = Some example_policy, last_freq_update_time = 100000000,
      min_rate_limit_ns = 2000 * NSEC_PER_USEC, up_rate_delay_ns = 2000 * NSEC_PER_USEC,
      down_rate_delay_ns = 20000 * NSEC_PER_USEC, next_freq = 715000,
      cached_raw_freq = 715000, work_in_progress = False, need_freq_update = False\<rparr>"

definition example_sgp :: "nat \<Rightarrow> cpufreq_policy option sugov_policy option" where
  "example_sgp c = (if c < 4 then Some example_qos_policy else None)"

text \<open>
  Four cores sharing the example policy, sampled at about 100000000 ns: core 0 with a
  utilization of 800 out of 1024, core 1 with 200, core 2 last sampled 10 ms earlier
  (stale) with a boost pending, core 3 with a utilization of 100 and a boost of a quarter
  of the maximum. In the second variant core 1 carries a deadline request.
\<close>

definition example_pc :: "nat \<Rightarrow> sugov_cpu" where
  "example_pc j =
     (if j = 0 then
        \<lparr>iowait_boost = 0, iowait_boost_max = 1794000, last_update = 100000000,
         util = 800, max_val = 1024, flags = 0, saved_idle_calls = 0\<rparr>
      else if j = 1 then
        \<lparr>iowait_boost = 0, iowait_boost_max = 1794000, last_update = 100000020,
         util = 200, max_val = 1024, flags = 0, saved_idle_calls = 0\<rparr>
      else if j = 2 then
        \<lparr>iowait_boost = 897000, iowait_boost_max = 1794000, last_update = 90000000,
         util = 1000, max_val = 1024, flags = 0, saved_idle_calls = 0\<rparr>
      else
        \<lparr>iowait_boost = 448500, iowait_boost_max = 1794000, last_update = 100000000,
         util = 100, max_val = 1024, flags = 0, saved_idle_calls = 0\<rparr>)"

definition example_pc_dl :: "nat \<Rightarrow> sugov_cpu" where
  "example_pc_dl j = (if j = 1 then (example_pc 1)\<lparr>flags := 2\<rparr> else example_pc j)"

section \<open>Properties\<close>

subsection \<open>The iowait boost at the sampling intake\<close>

lemma sugov_set_iowait_boost_eq:
  "sugov_set_iowait_boost env c t fl = c\<lparr>iowait_boost := 0\<rparr>"
  by (simp add: sugov_set_iowait_boost_def Let_def)

text \<open>
  Claim C1, as the code has it: \<open>sugov_set_iowait_boost\<close> ends with an unconditional
  store of zero, so upon return the boost of the core is zero for every sample, whatever
  its flags and whatever the time since the previous update, and no other field of the
  core's data has changed.
\<close>

theorem C1_set_iowait_boost_always_clears:
  "iowait_boost (sugov_set_iowait_boost env c t fl) = 0
   \<and> sugov_set_iowait_boost env c t fl = c\<lparr>iowait_boost := 0\<rparr>"
  by (simp add: sugov_set_iowait_boost_def Let_def)

text \<open>
  The claim as written fails: a sample with the I/O-wait flag (bit 4) leaves the boost at
  zero and not at the configured maximum 1794000; and a sample without the flag, taken
  at the very time of the previous update, clears a boost of 897000.
\<close>

theorem C1_counterexample:
  "4 AND SCHED_CPUFREQ_IOWAIT example_env \<noteq> 0
   \<and> iowait_boost (sugov_set_iowait_boost example_env example_sg_cpu 100000000 4)
       \<noteq> iowait_boost_max example_sg_cpu
   \<and> 0 AND SCHED_CPUFREQ_IOWAIT example_env = 0
   \<and> \<not> (TICK_NSEC example_env <s 100000000 - last_update example_sg_cpu)
   \<and> iowait_boost example_sg_cpu = 897000
   \<and> iowait_boost (sugov_set_iowait_boost example_env example_sg_cpu 100000000 0) = 0"
  by (simp add: sugov_set_iowait_boost_def Let_def example_env_def example_sg_cpu_def
      word_sless_alt)

subsection \<open>The should-update gate\<close>

text \<open>
  Claim C6, as the code has it. The test for a deferred apply in flight comes first: then
  the gate fails and nothing changes, the forced-recompute flag included. With no apply in
  flight and the flag set, the committed target becomes \<open>UINT_MAX\<close>, the flag is
  cleared and the gate passes, whatever the time. With no apply in flight and the flag
  clear, the gate passes exactly when the signed difference between the time and the last
  frequency update is at least the minimum delay.
\<close>

theorem C6_should_update_gate:
  "(work_in_progress sg \<longrightarrow> sugov_should_update_freq sg t = (False, sg))
   \<and> (\<not> work_in_progress sg \<and> need_freq_update sg \<longrightarrow>
        sugov_should_update_freq sg t
          = (True, sg\<lparr>need_freq_update := False, next_freq := UINT_MAX\<rparr>))
   \<and> (\<not> work_in_progress sg \<and> \<not> need_freq_update sg \<longrightarrow>
        sugov_should_update_freq sg t
          = (min_rate_limit_ns sg \<le>s t - last_freq_update_time sg, sg))"
  by (simp add: sugov_should_update_freq_def Let_def)

text \<open>
  The three cases on the example group, whose last update was at 100000000 ns with a
  minimum delay of 2 ms: a sample 1 \<mu>s later is refused with an apply in flight even
  though the flag is set, passes with the flag set and no apply in flight, and is refused
  with neither; a sample 2 ms later passes.
\<close>

theorem C6_witness:
  "work_in_progress (example_sg_policy\<lparr>work_in_progress := True, need_freq_update := True\<rparr>)
   \<and> sugov_should_update_freq
        (example_sg_policy\<lparr>work_in_progress := True, need_freq_update := True\<rparr>) 100001000
       = (False, example_sg_policy\<lparr>work_in_progress := True, need_freq_update := True\<rparr>)
   \<and> \<not> work_in_progress (example_sg_policy\<lparr>need_freq_update := True\<rparr>)
   \<and> need_freq_update (example_sg_policy\<lparr>need_freq_update := True\<rparr>)
   \<and> \<not> (min_rate_limit_ns example_sg_policy
            \<le>s 100001000 - last_freq_update_time example_sg_policy)
   \<and> sugov_should_update_freq (example_sg_policy\<lparr>need_freq_update := True\<rparr>) 100001000
       = (True, example_sg_policy\<lparr>need_freq_update := False, next_freq := UINT_MAX\<rparr>)
   \<and> \<not> work_in_progress example_sg_policy \<and> \<not> need_freq_update example_sg_policy
   \<and> sugov_should_update_freq example_sg_policy 100001000 = (False, example_sg_policy)
   \<and> sugov_should_update_freq example_sg_policy 102000000 = (True, example_sg_policy)"
  using
    C6_should_update_gate
      [of "example_sg_policy\<lparr>work_in_progress := True, need_freq_update := True\<rparr>" 100001000]
    C6_should_update_gate [of "example_sg_policy\<lparr>need_freq_update := True\<rparr>" 100001000]
    C6_should_update_gate [of example_sg_policy 100001000]
    C6_should_update_gate [of example_sg_policy 102000000]
  by (simp add: example_sg_policy_def NSEC_PER_USEC_def word_sle_eq)

text \<open>
  The claim as written fails when the forced-recompute flag is set while a deferred apply
  is in flight: the gate does not pass, the flag stays set and the committed target is
  not invalidated.
\<close>

theorem C6_counterexample:
  "need_freq_update (example_sg_policy\<lparr>work_in_progress := True, need_freq_update := True\<rparr>)
   \<and> \<not> fst (sugov_should_update_freq
              (example_sg_policy\<lparr>work_in_progress := True, need_freq_update := True\<rparr>)
              200000000)
   \<and> need_freq_update (snd (sugov_should_update_freq
              (example_sg_policy\<lparr>work_in_progress := True, need_freq_update := True\<rparr>)
              200000000))
   \<and> next_freq (snd (sugov_should_update_freq
              (example_sg_policy\<lparr>work_in_progress := True, need_freq_update := True\<rparr>)
              200000000))
        \<noteq> UINT_MAX"
  by (simp add: sugov_should_update_freq_def example_sg_policy_def UINT_MAX_def)

subsection \<open>The up/down gate and the commit\<close>

lemma sugov_up_down_rate_limit_iff:
  "sugov_up_down_rate_limit sg t nf \<longleftrightarrow>
     (next_freq sg < nf \<and> t - last_freq_update_time sg <s up_rate_delay_ns sg)
   \<or> (nf < next_freq sg \<and> t - last_freq_update_time sg <s down_rate_delay_ns sg)"
  by (simp add: sugov_up_down_rate_limit_def Let_def)











subsection \<open>The fast-switch branch\<close>





subsection \<open>The frequency selector\<close>

lemma freqvar_tipping_point_word: "freqvar_tipping_point c f = f + f div 4"
  by (simp add: freqvar_tipping_point_def drop_bit_eq_div)

lemma freqvar_tipping_point_unat:
  assumes "unat f + unat f div 4 < 2 ^ 32"
  shows "unat (freqvar_tipping_point c f) = unat f + unat f div 4"
proof -
  have "unat (drop_bit 2 f) = unat f div 4"
    by (simp add: drop_bit_eq_div unat_div)
  then show ?thesis
    using assms by (simp add: freqvar_tipping_point_def unat_word_ariths)
qed

lemma raw_product_unat:
  fixes tp :: u32 and u m :: u64
  assumes "unat tp * unat u < 2 ^ 64"
  shows "unat ((ucast tp :: u64) * u div m) = unat tp * unat u div unat m"
proof -
  have "unat tp < 2 ^ 32"
    using unsigned_less [of tp] by simp
  then have "unat tp < 2 ^ 64"
    by simp
  then have a: "unat (ucast tp :: u64) = unat tp"
    by (simp add: unsigned_ucast_eq take_bit_nat_eq_self)
  have "unat ((ucast tp :: u64) * u) = unat tp * unat u"
    using assms a by (simp add: unat_mult_lem [THEN iffD1])
  then show ?thesis
    by (simp add: unat_div)
qed

lemma raw_candidate_unat:
  fixes tp :: u32 and u m :: u64
  assumes "unat tp * unat u < 2 ^ 64" and "unat tp * unat u div unat m < 2 ^ 32"
  shows "unat (ucast ((ucast tp :: u64) * u div m) :: u32) = unat tp * unat u div unat m"
proof -
  have "unat (ucast ((ucast tp :: u64) * u div m) :: u32)
          = take_bit 32 (unat ((ucast tp :: u64) * u div m))"
    by (simp add: unsigned_ucast_eq)
  then show ?thesis
    using assms by (simp add: raw_product_unat take_bit_nat_eq_self)
qed

lemma get_next_freq_eq:
  assumes "m \<noteq> 0"
    and "f_ref = (if arch_scale_freq_invariant env then pol_max (policy sg) else cur (policy sg))"
    and "cand = (ucast ((ucast (freqvar_tipping_point (cpu (policy sg)) f_ref) :: u64) * u div m)
                  :: u32)"
  shows "get_next_freq env sg u m =
      (if cand = cached_raw_freq sg \<and> next_freq sg \<noteq> UINT_MAX then Some (next_freq sg, sg)
       else Some (cpufreq_driver_resolve_freq env (policy sg) cand,
                  sg\<lparr>cached_raw_freq := cand\<rparr>))"
  using assms by (simp add: get_next_freq_def Let_def)

lemma get_next_freq_frame:
  assumes "get_next_freq env sg u m = Some (f, sg')"
  shows "sg' = sg\<lparr>cached_raw_freq := cached_raw_freq sg'\<rparr>"
  using assms by (auto simp: get_next_freq_def Let_def split: if_splits)

lemma get_next_freq_next_freq:
  assumes "get_next_freq env sg u m = Some (f, sg')"
  shows "next_freq sg' = next_freq sg"
  using assms by (auto simp: get_next_freq_def Let_def split: if_splits)

lemma spec_lowest_supported_Some:
  assumes "spec_lowest_supported table f = Some s"
  shows "s \<in> set table \<and> f \<le> s \<and> (\<forall>s'\<in>set table. f \<le> s' \<longrightarrow> s \<le> s')"
proof -
  from assms obtain x xs where fl: "filter (\<lambda>s. f \<le> s) table = x # xs"
    and s: "s = fold min xs x"
    by (auto simp: spec_lowest_supported_def split: list.splits)
  have set_eq: "set (x # xs) = {s \<in> set table. f \<le> s}"
    using fl [symmetric] by simp
  have m: "s = Min (set (x # xs))"
    by (simp only: s Min.set_eq_fold)
  have "s \<in> set (x # xs)"
    unfolding m by (rule Min_in) simp_all
  moreover have "\<forall>s'\<in>set (x # xs). s \<le> s'"
    unfolding m by (simp del: set_simps)
  ultimately show ?thesis
    unfolding set_eq by simp
qed

lemma spec_resolve_bounds:
  assumes "pol_min p \<le> pol_max p"
  shows "pol_min p \<le> spec_cpufreq_driver_resolve_freq table p f
       \<and> spec_cpufreq_driver_resolve_freq table p f \<le> pol_max p"
  using assms by (simp add: spec_cpufreq_driver_resolve_freq_def Let_def)

lemma spec_resolve_Some:
  assumes "spec_lowest_supported table f = Some s"
  shows "spec_cpufreq_driver_resolve_freq table p f = max (pol_min p) (min (pol_max p) s)"
  using assms by (simp add: spec_cpufreq_driver_resolve_freq_def)

lemma spec_resolve_within:
  assumes "spec_lowest_supported table f = Some s" and "pol_min p \<le> s" and "s \<le> pol_max p"
  shows "spec_cpufreq_driver_resolve_freq table p f = s"
  using assms by (simp add: spec_resolve_Some max_def min_def)

lemma spec_resolve_over_max:
  assumes "pol_min p \<le> pol_max p" and "pol_max p < f"
  shows "spec_cpufreq_driver_resolve_freq table p f = pol_max p"
proof -
  define r where "r = (case spec_lowest_supported table f of Some s \<Rightarrow> s | None \<Rightarrow> f)"
  have "f \<le> r"
  proof (cases "spec_lowest_supported table f")
    case None
    then show ?thesis by (simp add: r_def)
  next
    case (Some s)
    then show ?thesis
      using spec_lowest_supported_Some [OF Some] by (simp add: r_def)
  qed
  then have "pol_max p \<le> r"
    using assms(2) by simp
  then have "min (pol_max p) r = pol_max p"
    by (rule min_absorb1)
  then show ?thesis
    using assms(1) by (simp add: spec_cpufreq_driver_resolve_freq_def r_def max_absorb2)
qed

text \<open>
  Claim C3, as the code and the driver's contract have it. For a capacity \<open>m \<noteq> 0\<close>,
  with \<open>f_ref\<close> the maximum frequency of the policy when utilization is frequency
  invariant and its current frequency otherwise, and \<open>cand\<close> the raw candidate the
  function computes (the tipping point of \<open>f_ref\<close> times the utilization, divided by
  the capacity, in \<open>unsigned long\<close>, cut to \<open>unsigned int\<close>): the tipping point is
  \<open>f_ref + f_ref / 4\<close>; as long as nothing overflows the candidate is the number
  \<open>(f_ref + f_ref div 4) * u div m\<close>; if the candidate is the cached one and a target
  is committed (\<open>next_freq \<noteq> UINT_MAX\<close>), the committed target is returned and nothing
  is resolved or stored; otherwise the candidate is stored in the cache and the result
  is the driver's resolution of it. With the driver of the specification and policy
  limits in order, that result lies within the limits of the policy; it is the lowest
  supported frequency at or above the candidate, clamped to the limits, hence that
  frequency itself, at or above the candidate, when it lies within them; and for a
  candidate above the maximum of the policy it is that maximum, below the candidate.
\<close>

theorem C3_get_next_freq:
  assumes "m \<noteq> 0"
    and "f_ref = (if arch_scale_freq_invariant env then pol_max (policy sg) else cur (policy sg))"
    and "cand = (ucast ((ucast (freqvar_tipping_point (cpu (policy sg)) f_ref) :: u64) * u div m)
                  :: u32)"
    and drv: "cpufreq_driver_resolve_freq env (policy sg) cand
                = spec_cpufreq_driver_resolve_freq table (policy sg) cand"
    and lim: "pol_min (policy sg) \<le> pol_max (policy sg)"
  shows "freqvar_tipping_point (cpu (policy sg)) f_ref = f_ref + f_ref div 4
   \<and> (unat f_ref + unat f_ref div 4 < 2 ^ 32
       \<and> (unat f_ref + unat f_ref div 4) * unat u < 2 ^ 64
       \<and> (unat f_ref + unat f_ref div 4) * unat u div unat m < 2 ^ 32
      \<longrightarrow> unat cand = (unat f_ref + unat f_ref div 4) * unat u div unat m)
   \<and> (cand = cached_raw_freq sg \<and> next_freq sg \<noteq> UINT_MAX
      \<longrightarrow> get_next_freq env sg u m = Some (next_freq sg, sg))
   \<and> (\<not> (cand = cached_raw_freq sg \<and> next_freq sg \<noteq> UINT_MAX)
      \<longrightarrow> get_next_freq env sg u m
            = Some (spec_cpufreq_driver_resolve_freq table (policy sg) cand,
                    sg\<lparr>cached_raw_freq := cand\<rparr>))
   \<and> pol_min (policy sg) \<le> spec_cpufreq_driver_resolve_freq table (policy sg) cand
   \<and> spec_cpufreq_driver_resolve_freq table (policy sg) cand \<le> pol_max (policy sg)
   \<and> (spec_lowest_supported table cand = Some s
      \<longrightarrow> s \<in> set table \<and> cand \<le> s \<and> (\<forall>s'\<in>set table. cand \<le> s' \<longrightarrow> s \<le> s')
        \<and> spec_cpufreq_driver_resolve_freq table (policy sg) cand
            = max (pol_min (policy sg)) (min (pol_max (policy sg)) s))
   \<and> (spec_lowest_supported table cand = Some s
        \<and> pol_min (policy sg) \<le> s \<and> s \<le> pol_max (policy sg)
      \<longrightarrow> spec_cpufreq_driver_resolve_freq table (policy sg) cand = s
        \<and> cand \<le> spec_cpufreq_driver_resolve_freq table (policy sg) cand)
   \<and> (pol_max (policy sg) < cand
      \<longrightarrow> spec_cpufreq_driver_resolve_freq table (policy sg) cand = pol_max (policy sg)
        \<and> spec_cpufreq_driver_resolve_freq table (policy sg) cand < cand)"
proof (intro conjI impI)
  show "freqvar_tipping_point (cpu (policy sg)) f_ref = f_ref + f_ref div 4"
    by (rule freqvar_tipping_point_word)
next
  assume a: "unat f_ref + unat f_ref div 4 < 2 ^ 32
       \<and> (unat f_ref + unat f_ref div 4) * unat u < 2 ^ 64
       \<and> (unat f_ref + unat f_ref div 4) * unat u div unat m < 2 ^ 32"
  then have t: "unat (freqvar_tipping_point (cpu (policy sg)) f_ref)
                  = unat f_ref + unat f_ref div 4"
    by (simp add: freqvar_tipping_point_unat)
  show "unat cand = (unat f_ref + unat f_ref div 4) * unat u div unat m"
    unfolding assms(3)
    using a raw_candidate_unat [of "freqvar_tipping_point (cpu (policy sg)) f_ref" u m]
    by (simp add: t)
next
  assume h: "cand = cached_raw_freq sg \<and> next_freq sg \<noteq> UINT_MAX"
  show "get_next_freq env sg u m = Some (next_freq sg, sg)"
    unfolding get_next_freq_eq [OF assms(1,2,3)] using h by simp
next
  assume h: "\<not> (cand = cached_raw_freq sg \<and> next_freq sg \<noteq> UINT_MAX)"
  have "get_next_freq env sg u m
            = Some (cpufreq_driver_resolve_freq env (policy sg) cand,
                    sg\<lparr>cached_raw_freq := cand\<rparr>)"
    unfolding get_next_freq_eq [OF assms(1,2,3)] using h by (simp only: if_False)
  then show "get_next_freq env sg u m
            = Some (spec_cpufreq_driver_resolve_freq table (policy sg) cand,
                    sg\<lparr>cached_raw_freq := cand\<rparr>)"
    by (simp only: drv)
next
  show "pol_min (policy sg) \<le> spec_cpufreq_driver_resolve_freq table (policy sg) cand"
    using spec_resolve_bounds [OF lim] by simp
  show "spec_cpufreq_driver_resolve_freq table (policy sg) cand \<le> pol_max (policy sg)"
    using spec_resolve_bounds [OF lim] by simp
next
  assume a: "spec_lowest_supported table cand = Some s"
  show "s \<in> set table" and "cand \<le> s" and "\<forall>s'\<in>set table. cand \<le> s' \<longrightarrow> s \<le> s'"
    using spec_lowest_supported_Some [OF a] by simp_all
  show "spec_cpufreq_driver_resolve_freq table (policy sg) cand
            = max (pol_min (policy sg)) (min (pol_max (policy sg)) s)"
    using a by (rule spec_resolve_Some)
next
  assume a: "spec_lowest_supported table cand = Some s
        \<and> pol_min (policy sg) \<le> s \<and> s \<le> pol_max (policy sg)"
  then have r: "spec_cpufreq_driver_resolve_freq table (policy sg) cand = s"
    by (simp add: spec_resolve_within)
  show "spec_cpufreq_driver_resolve_freq table (policy sg) cand = s"
    by (rule r)
  show "cand \<le> spec_cpufreq_driver_resolve_freq table (policy sg) cand"
    unfolding r using a spec_lowest_supported_Some by blast
next
  assume a: "pol_max (policy sg) < cand"
  have r: "spec_cpufreq_driver_resolve_freq table (policy sg) cand = pol_max (policy sg)"
    using lim a by (rule spec_resolve_over_max)
  show "spec_cpufreq_driver_resolve_freq table (policy sg) cand = pol_max (policy sg)"
    by (rule r)
  show "spec_cpufreq_driver_resolve_freq table (policy sg) cand < cand"
    unfolding r by (rule a)
qed

lemma example_table_env_invariant: "arch_scale_freq_invariant example_table_env"
  by (simp add: example_table_env_def example_env_def)

lemma example_table_env_resolve:
  "cpufreq_driver_resolve_freq example_table_env p f
     = spec_cpufreq_driver_resolve_freq example_freq_table p f"
  by (simp add: example_table_env_def)

lemma example_capped_group_limits:
  "pol_min (policy example_capped_group) = 455000"
  "pol_max (policy example_capped_group) = 1794000"
  "cpu (policy example_capped_group) = 0"
  "cached_raw_freq example_capped_group = 949000"
  "next_freq example_capped_group = 949000"
  by (simp_all add: example_capped_group_def example_capped_policy_def example_policy_def
      example_sg_policy_def)

lemma example_cached_policy_limits:
  "pol_min (policy example_cached_policy) = 455000"
  "pol_max (policy example_cached_policy) = 1794000"
  "cpu (policy example_cached_policy) = 0"
  "cached_raw_freq example_cached_policy = 1751953"
  "next_freq example_cached_policy = 949000"
  by (simp_all add: example_cached_policy_def example_capped_group_limits)

lemma example_lowest_1751953: "spec_lowest_supported example_freq_table 1751953 = Some 1794000"
  by (simp add: spec_lowest_supported_def example_freq_table_def)

lemma example_lowest_2242500: "spec_lowest_supported example_freq_table 2242500 = Some 2314000"
  by (simp add: spec_lowest_supported_def example_freq_table_def)

text \<open>
  On the capped example group (frequency-invariant utilization, maximum 1794000, so a
  tipping point of 2242500) a utilization of 800 out of 1024 gives the candidate 1751953:
  with 949000 in the cache it is stored and resolved to 1794000, the lowest supported
  frequency at or above it; with 1751953 in the cache the committed target 949000 is
  returned. A utilization of 1024 gives the candidate 2242500, above the maximum of the
  policy, and is resolved to that maximum.
\<close>

theorem C3_witness:
  "(1024 :: u64) \<noteq> 0
   \<and> pol_min (policy example_capped_group) \<le> pol_max (policy example_capped_group)
   \<and> unat (1794000 :: u32) + unat (1794000 :: u32) div 4 < 2 ^ 32
   \<and> (unat (1794000 :: u32) + unat (1794000 :: u32) div 4) * unat (800 :: u64) < 2 ^ 64
   \<and> (unat (1794000 :: u32) + unat (1794000 :: u32) div 4) * unat (800 :: u64)
        div unat (1024 :: u64) < 2 ^ 32
   \<and> unat (1751953 :: u32)
       = (unat (1794000 :: u32) + unat (1794000 :: u32) div 4) * unat (800 :: u64)
           div unat (1024 :: u64)
   \<and> \<not> (1751953 = cached_raw_freq example_capped_group
          \<and> next_freq example_capped_group \<noteq> UINT_MAX)
   \<and> spec_lowest_supported example_freq_table 1751953 = Some 1794000
   \<and> pol_min (policy example_capped_group) \<le> 1794000
   \<and> 1794000 \<le> pol_max (policy example_capped_group)
   \<and> spec_cpufreq_driver_resolve_freq example_freq_table (policy example_capped_group)
        1751953 = 1794000
   \<and> get_next_freq example_table_env example_capped_group 800 1024
       = Some (1794000, example_capped_group\<lparr>cached_raw_freq := 1751953\<rparr>)
   \<and> (1751953 = cached_raw_freq example_cached_policy
        \<and> next_freq example_cached_policy \<noteq> UINT_MAX)
   \<and> get_next_freq example_table_env example_cached_policy 800 1024
       = Some (949000, example_cached_policy)
   \<and> pol_max (policy example_capped_group) < 2242500
   \<and> spec_cpufreq_driver_resolve_freq example_freq_table (policy example_capped_group)
        2242500 = pol_max (policy example_capped_group)
   \<and> get_next_freq example_table_env example_capped_group 1024 1024
       = Some (1794000, example_capped_group\<lparr>cached_raw_freq := 2242500\<rparr>)"
proof -
  have m: "(1024 :: u64) \<noteq> 0"
    by simp
  have lim: "pol_min (policy example_capped_group) \<le> pol_max (policy example_capped_group)"
    and lim': "pol_min (policy example_cached_policy) \<le> pol_max (policy example_cached_policy)"
    and lo: "pol_min (policy example_capped_group) \<le> 1794000"
    and hi: "1794000 \<le> pol_max (policy example_capped_group)"
    and over: "pol_max (policy example_capped_group) < 2242500"
    and pm: "pol_max (policy example_capped_group) = 1794000"
    by (simp_all add: example_capped_group_limits example_cached_policy_limits)
  have f1: "(1794000 :: u32) = (if arch_scale_freq_invariant example_table_env
              then pol_max (policy example_capped_group) else cur (policy example_capped_group))"
    and f2: "(1794000 :: u32) = (if arch_scale_freq_invariant example_table_env
              then pol_max (policy example_cached_policy) else cur (policy example_cached_policy))"
    by (simp_all add: example_table_env_invariant example_capped_group_limits
        example_cached_policy_limits)
  have c1: "(1751953 :: u32) = ucast ((ucast (freqvar_tipping_point
              (cpu (policy example_capped_group)) 1794000) :: u64) * 800 div 1024)"
    and c2: "(1751953 :: u32) = ucast ((ucast (freqvar_tipping_point
              (cpu (policy example_cached_policy)) 1794000) :: u64) * 800 div 1024)"
    and c3: "(2242500 :: u32) = ucast ((ucast (freqvar_tipping_point
              (cpu (policy example_capped_group)) 1794000) :: u64) * 1024 div 1024)"
    by (simp_all add: freqvar_tipping_point_def)
  have b: "unat (1794000 :: u32) + unat (1794000 :: u32) div 4 < 2 ^ 32"
    "(unat (1794000 :: u32) + unat (1794000 :: u32) div 4) * unat (800 :: u64) < 2 ^ 64"
    "(unat (1794000 :: u32) + unat (1794000 :: u32) div 4) * unat (800 :: u64)
        div unat (1024 :: u64) < 2 ^ 32"
    by simp_all
  have miss: "\<not> (1751953 = cached_raw_freq example_capped_group
                 \<and> next_freq example_capped_group \<noteq> UINT_MAX)"
    and miss': "\<not> (2242500 = cached_raw_freq example_capped_group
                 \<and> next_freq example_capped_group \<noteq> UINT_MAX)"
    by (simp_all add: example_capped_group_limits)
  have hit: "1751953 = cached_raw_freq example_cached_policy
               \<and> next_freq example_cached_policy \<noteq> UINT_MAX"
    and nf: "next_freq example_cached_policy = 949000"
    by (simp_all add: example_cached_policy_limits UINT_MAX_def)
  note a = C3_get_next_freq [where table = example_freq_table and s = 1794000,
      OF m f1 c1 example_table_env_resolve lim]
  note h = C3_get_next_freq [where table = example_freq_table and s = 1794000,
      OF m f2 c2 example_table_env_resolve lim']
  note o = C3_get_next_freq [where table = example_freq_table and s = 2314000,
      OF m f1 c3 example_table_env_resolve lim]
  have r1: "spec_cpufreq_driver_resolve_freq example_freq_table (policy example_capped_group)
        1751953 = 1794000"
    using a example_lowest_1751953 lo hi by blast
  have g1: "get_next_freq example_table_env example_capped_group 800 1024
       = Some (1794000, example_capped_group\<lparr>cached_raw_freq := 1751953\<rparr>)"
    using a miss r1 by simp
  have g2: "get_next_freq example_table_env example_cached_policy 800 1024
       = Some (949000, example_cached_policy)"
    using h hit nf by simp
  have r3: "spec_cpufreq_driver_resolve_freq example_freq_table (policy example_capped_group)
        2242500 = pol_max (policy example_capped_group)"
    using o over by blast
  have g3: "get_next_freq example_table_env example_capped_group 1024 1024
       = Some (1794000, example_capped_group\<lparr>cached_raw_freq := 2242500\<rparr>)"
    using o miss' r3 pm by simp
  show ?thesis
    using m lim b a miss example_lowest_1751953 lo hi r1 g1 hit g2 over r3 g3
    by blast
qed

text \<open>
  The claim as written fails for a candidate above the maximum of the policy: at full
  utilization the candidate is 2242500, the lowest supported frequency at or above it is
  2314000, and the result is 1794000, the maximum of the policy, below the candidate.
\<close>

theorem C3_counterexample:
  "spec_lowest_supported example_freq_table 2242500 = Some 2314000
   \<and> cpufreq_driver_resolve_freq example_table_env (policy example_capped_group) 2242500
       = spec_cpufreq_driver_resolve_freq example_freq_table (policy example_capped_group)
           2242500
   \<and> get_next_freq example_table_env example_capped_group 1024 1024
       = Some (1794000, example_capped_group\<lparr>cached_raw_freq := 2242500\<rparr>)
   \<and> \<not> ((2242500 :: u32) \<le> 1794000)
   \<and> (1794000 :: u32) \<noteq> 2314000"
  by (simp add: example_lowest_2242500 example_table_env_resolve)
    (simp add: get_next_freq_def Let_def example_table_env_invariant
      example_capped_group_limits freqvar_tipping_point_def UINT_MAX_def
      example_table_env_resolve spec_cpufreq_driver_resolve_freq_def example_lowest_2242500)

text \<open>
  Claim C9 fails on the code. When the up/down gate blocks a target it keeps the committed
  target and resets the cached raw frequency to 0, so that the next selection is computed
  afresh; but 0 is itself the raw frequency of a utilization of 0. On the example group
  the blocked target 1248000 leaves 949000 committed with 0 in the cache; then a
  utilization of 0 hits the cache and returns the stale 949000, where the driver resolves
  the raw frequency 0 to 455000, and the greater utilization of 100 out of 1024 returns
  455000.
\<close>

theorem C9_stale_target_at_zero:
  "sugov_update_commit example_env example_sg_policy 101000000 1248000
     = (example_sg_policy\<lparr>cached_raw_freq := 0\<rparr>, [])
   \<and> (0 :: u64) \<le> 100
   \<and> get_next_freq example_env (example_sg_policy\<lparr>cached_raw_freq := 0\<rparr>) 0 1024
       = Some (949000, example_sg_policy\<lparr>cached_raw_freq := 0\<rparr>)
   \<and> get_next_freq example_env (example_sg_policy\<lparr>cached_raw_freq := 0\<rparr>) 100 1024
       = Some (455000, example_sg_policy\<lparr>cached_raw_freq := 218994\<rparr>)
   \<and> cpufreq_driver_resolve_freq example_env (policy example_sg_policy) 0 = 455000
   \<and> \<not> ((949000 :: u32) \<le> 455000)"
  by (simp add: sugov_update_commit_def sugov_up_down_rate_limit_iff word_sless_alt
      NSEC_PER_USEC_def get_next_freq_def Let_def example_env_def example_sg_policy_def
      example_policy_def freqvar_tipping_point_def UINT_MAX_def example_resolve_def)

subsection \<open>The update of a single-CPU policy on a busy CPU\<close>

lemma sugov_iowait_boost_none:
  "iowait_boost c = 0 \<Longrightarrow> sugov_iowait_boost c u m = (c, u, m)"
  by (simp add: sugov_iowait_boost_def)

text \<open>
  Claim C10. In \<open>sugov_update_single\<close>, when the should-update gate passes (leaving
  the group \<open>sg1\<close>), the kernel counts idle calls and the count equals the saved one
  (the CPU is busy), the request is not a deadline request, and the frequency \<open>f\<close>
  selected for the sampled utilization is below the committed target: the committed target
  is kept, the cached raw frequency is zero afterwards, nothing else in the group changes
  and nothing is requested of the hardware. The per-CPU data records the time and the idle
  count.
\<close>

theorem C10_busy_cpu_keeps_target:
  assumes gate: "sugov_should_update_freq sg t = (True, sg1)"
    and nohz: "CONFIG_NO_HZ_COMMON env" and busy: "idle_calls = saved_idle_calls sg_cpu"
    and nodl: "fl AND SCHED_CPUFREQ_DL env = 0"
    and sel: "get_next_freq env sg1 (fst (sugov_get_util src)) (snd (sugov_get_util src))
                = Some (f, sg2)"
    and lower: "f < next_freq sg1"
  shows "sugov_update_single env src idle_calls sg_cpu sg t fl
           = Some (sg_cpu\<lparr>iowait_boost := 0, last_update := t, saved_idle_calls := idle_calls\<rparr>,
                   sg1\<lparr>cached_raw_freq := 0\<rparr>, [])
         \<and> next_freq (sg1\<lparr>cached_raw_freq := 0\<rparr>) = next_freq sg1
         \<and> cached_raw_freq (sg1\<lparr>cached_raw_freq := 0\<rparr>) = 0"
proof -
  have fr: "sg2 = sg1\<lparr>cached_raw_freq := cached_raw_freq sg2\<rparr>"
    using sel by (rule get_next_freq_frame)
  have nf: "next_freq sg2 = next_freq sg1"
    using sel by (rule get_next_freq_next_freq)
  have eq: "sg2\<lparr>cached_raw_freq := 0\<rparr> = sg1\<lparr>cached_raw_freq := 0\<rparr>"
    by (subst fr) simp
  have lim: "\<not> sugov_up_down_rate_limit (sg2\<lparr>cached_raw_freq := 0\<rparr>) t (next_freq sg1)"
    by (simp add: sugov_up_down_rate_limit_iff nf)
  have com: "sugov_update_commit env (sg2\<lparr>cached_raw_freq := 0\<rparr>) t (next_freq sg1)
               = (sg2\<lparr>cached_raw_freq := 0\<rparr>, [])"
    using lim by (simp add: sugov_update_commit_def nf)
  have "sugov_update_single env src idle_calls sg_cpu sg t fl
           = Some (sg_cpu\<lparr>iowait_boost := 0, last_update := t, saved_idle_calls := idle_calls\<rparr>,
                   sg2\<lparr>cached_raw_freq := 0\<rparr>, [])"
    using gate nohz busy nodl sel lower
    by (simp add: sugov_update_single_def Let_def sugov_set_iowait_boost_eq sugov_cpu_is_busy_def
        sugov_iowait_boost_none split_beta nf com)
  then show ?thesis
    by (simp add: eq)
qed

text \<open>
  On the example platform: 3 ms after the last update the gate passes, the idle count is
  still 7, and a utilization of 300 out of 1024 selects 656982, below the committed
  949000.
\<close>

theorem C10_witness:
  "sugov_should_update_freq example_sg_policy 103000000 = (True, example_sg_policy)
   \<and> CONFIG_NO_HZ_COMMON example_env
   \<and> 7 = saved_idle_calls example_sg_cpu
   \<and> 0 AND SCHED_CPUFREQ_DL example_env = 0
   \<and> get_next_freq example_env example_sg_policy (fst (sugov_get_util example_util_source))
        (snd (sugov_get_util example_util_source))
       = Some (656982, example_sg_policy\<lparr>cached_raw_freq := 656982\<rparr>)
   \<and> 656982 < next_freq example_sg_policy
   \<and> sugov_update_single example_env example_util_source 7
        example_sg_cpu example_sg_policy 103000000 0
       = Some (example_sg_cpu\<lparr>iowait_boost := 0, last_update := 103000000,
                 saved_idle_calls := 7\<rparr>,
               example_sg_policy\<lparr>cached_raw_freq := 0\<rparr>, [])
   \<and> next_freq (example_sg_policy\<lparr>cached_raw_freq := 0\<rparr>) = next_freq example_sg_policy
   \<and> next_freq example_sg_policy = 949000"
proof -
  have gate: "sugov_should_update_freq example_sg_policy 103000000 = (True, example_sg_policy)"
    by (simp add: sugov_should_update_freq_def example_sg_policy_def NSEC_PER_USEC_def
        word_sle_eq)
  have nohz: "CONFIG_NO_HZ_COMMON example_env"
    and nodl: "0 AND SCHED_CPUFREQ_DL example_env = 0"
    by (simp_all add: example_env_def)
  have busy: "7 = saved_idle_calls example_sg_cpu"
    by (simp add: example_sg_cpu_def)
  have sel: "get_next_freq example_env example_sg_policy
        (fst (sugov_get_util example_util_source)) (snd (sugov_get_util example_util_source))
       = Some (656982, example_sg_policy\<lparr>cached_raw_freq := 656982\<rparr>)"
    by (simp add: get_next_freq_def Let_def example_env_def example_sg_policy_def
        example_policy_def freqvar_tipping_point_def UINT_MAX_def example_resolve_def
        sugov_get_util_def example_util_source_def)
  have lower: "656982 < next_freq example_sg_policy"
    and nf: "next_freq example_sg_policy = 949000"
    by (simp_all add: example_sg_policy_def)
  show ?thesis
    using gate nohz busy nodl sel lower nf
      C10_busy_cpu_keeps_target [OF gate nohz busy nodl sel lower]
    by blast
qed

subsection \<open>The PM QoS minimum notification\<close>

lemma sugov_pm_qos_callback_resolved:
  assumes "find_cpu_pm_qos_class env ex cls = Inr c" and "sgp c = Some sg"
    and "policy sg = Some p0" and "cpufreq_cpu_get env c = Some p"
  shows "sugov_pm_qos_callback env ex sgp val cls =
           (if ucast (cur p) \<le> val then (NOTIFY_BAD, [])
            else (NOTIFY_OK, [Driver_target p (next_freq sg)]))"
  using assms by (simp add: sugov_pm_qos_callback_def Let_def)



lemma example_find_cpu: "find_cpu_pm_qos_class example_env example_exynos 3 = Inr 0"
  by code_simp

lemma example_sgp_0: "example_sgp 0 = Some example_qos_policy"
  by (simp add: example_sgp_def)

lemma example_qos_policy_policy: "policy example_qos_policy = Some example_policy"
  by (simp add: example_qos_policy_def)

lemma example_cpufreq_cpu_get_0: "cpufreq_cpu_get example_env 0 = Some example_policy"
  by (simp add: example_env_def)

text \<open>
  Claim C2, as the code has it. When the class resolves to an active core, the core has
  a policy group with a policy, and \<open>cpufreq_cpu_get\<close> finds the policy of the core: a
  floor below the current frequency of the policy makes exactly one blocking driver call,
  with the committed target of the group; a floor at or above the current frequency makes
  no call.
\<close>

theorem C2_min_floor_calls:
  assumes "find_cpu_pm_qos_class env ex cls = Inr c" and "sgp c = Some sg"
    and "policy sg = Some p0" and "cpufreq_cpu_get env c = Some p"
  shows "(val < ucast (cur p) \<longrightarrow>
            snd (sugov_pm_qos_callback env ex sgp val cls) = [Driver_target p (next_freq sg)])
       \<and> (ucast (cur p) \<le> val \<longrightarrow> snd (sugov_pm_qos_callback env ex sgp val cls) = [])"
  by (simp add: sugov_pm_qos_callback_resolved [where sgp = sgp, OF assms] not_less [symmetric])

text \<open>
  On the example platform, class 3 resolves to CPU 0, whose policy runs at 949000 with
  715000 committed: a floor of 455000 makes the one call, a floor of 1248000 none.
\<close>

theorem C2_witness:
  "find_cpu_pm_qos_class example_env example_exynos 3 = Inr 0
   \<and> example_sgp 0 = Some example_qos_policy
   \<and> policy example_qos_policy = Some example_policy
   \<and> cpufreq_cpu_get example_env 0 = Some example_policy
   \<and> (455000 :: u64) < ucast (cur example_policy)
   \<and> snd (sugov_pm_qos_callback example_env example_exynos example_sgp 455000 3)
       = [Driver_target example_policy (next_freq example_qos_policy)]
   \<and> ucast (cur example_policy) \<le> (1248000 :: u64)
   \<and> snd (sugov_pm_qos_callback example_env example_exynos example_sgp 1248000 3) = []"
proof -
  have lo: "(455000 :: u64) < ucast (cur example_policy)"
    and hi: "ucast (cur example_policy) \<le> (1248000 :: u64)"
    by (simp_all add: example_policy_def)
  show ?thesis
    using lo hi example_find_cpu example_sgp_0 example_qos_policy_policy
      example_cpufreq_cpu_get_0
      C2_min_floor_calls [where sgp = example_sgp and val = 455000,
        OF example_find_cpu example_sgp_0 example_qos_policy_policy example_cpufreq_cpu_get_0]
      C2_min_floor_calls [where sgp = example_sgp and val = 1248000,
        OF example_find_cpu example_sgp_0 example_qos_policy_policy example_cpufreq_cpu_get_0]
    by blast
qed

text \<open>
  The claim as written fails in both directions: the floor 1248000, above the current
  949000, makes no call, and the floor 455000, below it, makes one.
\<close>

theorem C2_counterexample:
  "cur example_policy = 949000
   \<and> sugov_pm_qos_callback example_env example_exynos example_sgp 1248000 3 = (NOTIFY_BAD, [])
   \<and> sugov_pm_qos_callback example_env example_exynos example_sgp 455000 3
       = (NOTIFY_OK, [Driver_target example_policy 715000])"
  by (simp add: sugov_pm_qos_callback_def example_find_cpu example_sgp_0
      example_qos_policy_policy example_cpufreq_cpu_get_0)
    (simp add: example_policy_def example_qos_policy_def)



subsection \<open>Aggregation over a shared policy\<close>

lemma cross_le_less_trans:
  fixes a b c d e f :: nat
  assumes "0 < b" and "0 < d" and "a * d \<le> c * b" and "c * f < e * d"
  shows "a * f < e * b"
proof -
  have "(a * f) * d = (a * d) * f"
    by (simp add: ac_simps)
  also have "\<dots> \<le> (c * b) * f"
    using assms(3) by (rule mult_le_mono1)
  also have "\<dots> = (c * f) * b"
    by (simp add: ac_simps)
  also have "\<dots> < (e * d) * b"
    using assms(4,1) by simp
  also have "\<dots> = (e * b) * d"
    by (simp add: ac_simps)
  finally show ?thesis
    by simp
qed

lemma cross_less_le_trans:
  fixes a b c d e f :: nat
  assumes "0 < f" and "0 < d" and "a * d < c * b" and "c * f \<le> e * d"
  shows "a * f < e * b"
proof -
  have "(a * f) * d = (a * d) * f"
    by (simp add: ac_simps)
  also have "\<dots> < (c * b) * f"
    using assms(3,1) by simp
  also have "\<dots> = (c * f) * b"
    by (simp add: ac_simps)
  also have "\<dots> \<le> (e * d) * b"
    using assms(4) by (rule mult_le_mono1)
  also have "\<dots> = (e * b) * d"
    by (simp add: ac_simps)
  finally show ?thesis
    by simp
qed

lemma cross_le_trans:
  fixes a b c d e f :: nat
  assumes "0 < d" and "a * d \<le> c * b" and "c * f \<le> e * d"
  shows "a * f \<le> e * b"
proof -
  have "(a * f) * d = (a * d) * f"
    by (simp add: ac_simps)
  also have "\<dots> \<le> (c * b) * f"
    using assms(2) by (rule mult_le_mono1)
  also have "\<dots> = (c * f) * b"
    by (simp add: ac_simps)
  also have "\<dots> \<le> (e * d) * b"
    using assms(3) by (rule mult_le_mono1)
  also have "\<dots> = (e * b) * d"
    by (simp add: ac_simps)
  finally show ?thesis
    using assms(1) by simp
qed

lemma cross_mult_unat:
  fixes x y :: u64
  assumes "x < 2 ^ 32" and "y < 2 ^ 32"
  shows "unat (x * y) = unat x * unat y"
proof -
  have x: "unat x < 2 ^ 32" and y: "unat y < 2 ^ 32"
    using assms by (simp_all add: word_less_nat_alt)
  have "unat x * unat y < 2 ^ 32 * 2 ^ 32"
    using x y by (rule mult_strict_mono) simp_all
  then have "unat x * unat y < 2 ^ 64"
    by simp
  then show ?thesis
    by (simp add: unat_mult_lem [THEN iffD1])
qed

lemma cross_mult_less:
  fixes x y z w :: u64
  assumes "x < 2 ^ 32" and "y < 2 ^ 32" and "z < 2 ^ 32" and "w < 2 ^ 32"
  shows "x * y < z * w \<longleftrightarrow> unat x * unat y < unat z * unat w"
  using assms by (simp add: word_less_nat_alt cross_mult_unat)

lemma word_pos_unat: "0 < (x :: u64) \<Longrightarrow> 0 < unat x"
  by (simp add: word_less_nat_alt)

lemma sugov_next_freq_shared_step:
  assumes r: "sample_in_range c" and u: "u < 2 ^ 32" and m0: "0 < m" and m: "m < 2 ^ 32"
  shows "snd (sugov_iowait_boost c
            (fst (if max_val c * u < util c * m then (util c, max_val c) else (u, m)))
            (snd (if max_val c * u < util c * m then (util c, max_val c) else (u, m))))
         = spec_pick (u, m) (spec_iowait_pair c)"
proof -
  have rng: "util c < 2 ^ 32" "max_val c < 2 ^ 32" "iowait_boost c < 2 ^ 32"
      "iowait_boost_max c < 2 ^ 32"
    using r by (simp_all add: sample_in_range_def)
  have pos: "0 < unat m" "0 < unat (max_val c)" "0 < unat (iowait_boost_max c)"
    using r m0 by (simp_all add: sample_in_range_def word_pos_unat)
  have c1: "max_val c * u < util c * m
              \<longleftrightarrow> unat (max_val c) * unat u < unat (util c) * unat m"
    by (intro cross_mult_less rng u m)
  have c2: "util c * iowait_boost_max c < max_val c * iowait_boost c
              \<longleftrightarrow> unat (util c) * unat (iowait_boost_max c)
                    < unat (max_val c) * unat (iowait_boost c)"
    by (intro cross_mult_less rng)
  have c3: "u * iowait_boost_max c < m * iowait_boost c
              \<longleftrightarrow> unat u * unat (iowait_boost_max c) < unat m * unat (iowait_boost c)"
    by (intro cross_mult_less rng u m)
  have c4: "iowait_boost_max c * u < iowait_boost c * m
              \<longleftrightarrow> unat (iowait_boost_max c) * unat u < unat (iowait_boost c) * unat m"
    by (intro cross_mult_less rng u m)
  show ?thesis
  proof (cases "iowait_boost c = 0")
    case True
    then show ?thesis
      by (simp add: sugov_iowait_boost_def Let_def spec_iowait_pair_def spec_pick_def)
  next
    case False
    consider
      (A1) "unat (max_val c) * unat u < unat (util c) * unat m"
           "unat (util c) * unat (iowait_boost_max c) < unat (max_val c) * unat (iowait_boost c)"
    | (A2) "unat (max_val c) * unat u < unat (util c) * unat m"
           "\<not> unat (util c) * unat (iowait_boost_max c)
                < unat (max_val c) * unat (iowait_boost c)"
    | (B1) "\<not> unat (max_val c) * unat u < unat (util c) * unat m"
           "unat u * unat (iowait_boost_max c) < unat m * unat (iowait_boost c)"
    | (B2) "\<not> unat (max_val c) * unat u < unat (util c) * unat m"
           "\<not> unat u * unat (iowait_boost_max c) < unat m * unat (iowait_boost c)"
      by blast
    then show ?thesis
    proof cases
      case A1
      have "unat u * unat (iowait_boost_max c) < unat (iowait_boost c) * unat m"
        using pos(3) pos(2) _ _
      proof (rule cross_less_le_trans)
        show "unat u * unat (max_val c) < unat (util c) * unat m"
          using A1(1) by (simp add: ac_simps)
        show "unat (util c) * unat (iowait_boost_max c)
                \<le> unat (iowait_boost c) * unat (max_val c)"
          using A1(2) by (simp add: ac_simps)
      qed
      then have "unat (iowait_boost_max c) * unat u < unat (iowait_boost c) * unat m"
        by (simp add: ac_simps)
      with A1 False show ?thesis
        by (simp add: sugov_iowait_boost_def Let_def spec_iowait_pair_def spec_pick_def c1 c2 c3 c4)
    next
      case A2
      with False show ?thesis
        by (simp add: sugov_iowait_boost_def Let_def spec_iowait_pair_def spec_pick_def c1 c2 c3 c4)
    next
      case B1
      have "unat (util c) * unat (iowait_boost_max c) < unat (iowait_boost c) * unat (max_val c)"
        using pos(2) pos(1) _ _
      proof (rule cross_le_less_trans)
        show "unat (util c) * unat m \<le> unat u * unat (max_val c)"
          using B1(1) by (simp add: ac_simps)
        show "unat u * unat (iowait_boost_max c) < unat (iowait_boost c) * unat m"
          using B1(2) by (simp add: ac_simps)
      qed
      then have o: "unat (util c) * unat (iowait_boost_max c)
                      < unat (max_val c) * unat (iowait_boost c)"
        by (simp add: ac_simps)
      have "unat (iowait_boost_max c) * unat u < unat (iowait_boost c) * unat m"
        using B1(2) by (simp add: ac_simps)
      with B1 o False show ?thesis
        by (simp add: sugov_iowait_boost_def Let_def spec_iowait_pair_def spec_pick_def c1 c2 c3 c4)
    next
      case B2
      have "\<not> unat (iowait_boost_max c) * unat u < unat (iowait_boost c) * unat m"
        using B2(2) by (simp add: ac_simps)
      with B2 False show ?thesis
        by (simp add: sugov_iowait_boost_def Let_def spec_iowait_pair_def spec_pick_def c1 c2 c3 c4)
    qed
  qed
qed

lemma sugov_next_freq_shared_loop_frame:
  "k \<notin> set js \<Longrightarrow> fst (sugov_next_freq_shared_loop env time js pc u m) k = pc k"
  by (induction js arbitrary: pc u m) (auto simp: Let_def split_beta)

lemma sugov_next_freq_shared_loop_cong:
  "\<forall>k\<in>set js. pc k = pc2 k \<Longrightarrow>
     snd (sugov_next_freq_shared_loop env time js pc u m)
       = snd (sugov_next_freq_shared_loop env time js pc2 u m)"
proof (induction js arbitrary: pc pc2 u m)
  case Nil
  then show ?case by simp
next
  case (Cons j js)
  have j: "pc j = pc2 j"
    using Cons.prems by simp
  have ih: "\<And>x u m. snd (sugov_next_freq_shared_loop env time js (pc(j := x)) u m)
                      = snd (sugov_next_freq_shared_loop env time js (pc2(j := x)) u m)"
    using Cons.prems by (intro Cons.IH) simp
  show ?case
    by (simp add: Let_def split_beta j ih)
qed

lemma sugov_next_freq_shared_loop_upd:
  assumes "j \<notin> set js"
  shows "snd (sugov_next_freq_shared_loop env time js (pc(j := x)) u m)
       = snd (sugov_next_freq_shared_loop env time js pc u m)"
  by (rule sugov_next_freq_shared_loop_cong) (use assms in auto)

lemma sugov_next_freq_shared_loop_DL:
  assumes "distinct js"
    and "\<exists>j\<in>set js. \<not> spec_stale env time (pc j) \<and> flags (pc j) AND SCHED_CPUFREQ_DL env \<noteq> 0"
  shows "snd (sugov_next_freq_shared_loop env time js pc u m) = None"
  using assms
proof (induction js arbitrary: u m)
  case Nil
  then show ?case by simp
next
  case (Cons j js)
  show ?case
  proof (cases "\<not> spec_stale env time (pc j) \<and> flags (pc j) AND SCHED_CPUFREQ_DL env \<noteq> 0")
    case True
    then show ?thesis
      by (simp add: spec_stale_def Let_def)
  next
    case False
    with Cons.prems have ex: "\<exists>k\<in>set js. \<not> spec_stale env time (pc k)
          \<and> flags (pc k) AND SCHED_CPUFREQ_DL env \<noteq> 0"
      by auto
    have d: "distinct js" and n: "j \<notin> set js"
      using Cons.prems by simp_all
    have ih: "\<And>u m. snd (sugov_next_freq_shared_loop env time js pc u m) = None"
      using Cons.IH [OF d ex] .
    from False show ?thesis
      by (auto simp: spec_stale_def Let_def split_beta sugov_next_freq_shared_loop_upd [OF n] ih)
  qed
qed

lemma spec_iowait_pair_range: "sample_in_range c \<Longrightarrow> pair_in_range (spec_iowait_pair c)"
  by (simp add: sample_in_range_def pair_in_range_def spec_iowait_pair_def)

lemma spec_pick_range: "pair_in_range b \<Longrightarrow> pair_in_range p \<Longrightarrow> pair_in_range (spec_pick b p)"
  by (simp add: spec_pick_def)

lemma sugov_next_freq_shared_loop_spec:
  assumes "distinct js"
    and "\<forall>j\<in>set js. \<not> spec_stale env time (pc j) \<longrightarrow> sample_in_range (pc j)"
    and "pair_in_range (u, m)"
    and "\<not> (\<exists>j\<in>set js. \<not> spec_stale env time (pc j)
              \<and> flags (pc j) AND SCHED_CPUFREQ_DL env \<noteq> 0)"
  shows "snd (sugov_next_freq_shared_loop env time js pc u m)
       = Some (spec_max_ratio (u, m)
           (map (\<lambda>j. spec_iowait_pair (pc j)) (filter (\<lambda>j. \<not> spec_stale env time (pc j)) js)))"
  using assms
proof (induction js arbitrary: u m)
  case Nil
  then show ?case by (simp add: spec_max_ratio_def)
next
  case (Cons j js)
  have d: "distinct js" and n: "j \<notin> set js"
    and rng: "\<forall>k\<in>set js. \<not> spec_stale env time (pc k) \<longrightarrow> sample_in_range (pc k)"
    and rj0: "\<not> spec_stale env time (pc j) \<longrightarrow> sample_in_range (pc j)"
    and nodl: "\<not> (\<exists>k\<in>set js. \<not> spec_stale env time (pc k)
              \<and> flags (pc k) AND SCHED_CPUFREQ_DL env \<noteq> 0)"
    using Cons.prems by simp_all
  note ih = Cons.IH [OF d rng _ nodl]
  show ?case
  proof (cases "spec_stale env time (pc j)")
    case True
    then show ?thesis
      using ih [OF Cons.prems(3)]
      by (simp add: spec_stale_def Let_def sugov_next_freq_shared_loop_upd [OF n])
  next
    case False
    then have fl: "flags (pc j) AND SCHED_CPUFREQ_DL env = 0"
      using Cons.prems(4) by auto
    have rj: "sample_in_range (pc j)"
      using rj0 False by simp
    have um: "u < 2 ^ 32" "0 < m" "m < 2 ^ 32"
      using Cons.prems(3) by (simp_all add: pair_in_range_def)
    have st: "snd (sugov_iowait_boost (pc j)
            (fst (if max_val (pc j) * u < util (pc j) * m then (util (pc j), max_val (pc j))
                  else (u, m)))
            (snd (if max_val (pc j) * u < util (pc j) * m then (util (pc j), max_val (pc j))
                  else (u, m))))
         = spec_pick (u, m) (spec_iowait_pair (pc j))"
      using rj um by (rule sugov_next_freq_shared_step)
    have pr: "pair_in_range (spec_pick (u, m) (spec_iowait_pair (pc j)))"
      using Cons.prems(3) rj by (simp add: spec_pick_range spec_iowait_pair_range)
    obtain u2 m2 where p: "spec_pick (u, m) (spec_iowait_pair (pc j)) = (u2, m2)"
      by (cases "spec_pick (u, m) (spec_iowait_pair (pc j))") auto
    have "snd (sugov_next_freq_shared_loop env time (j # js) pc u m)
            = snd (sugov_next_freq_shared_loop env time js pc u2 m2)"
      using False fl st p
      by (simp add: spec_stale_def Let_def split_beta sugov_next_freq_shared_loop_upd [OF n])
    also have "\<dots> = Some (spec_max_ratio (u2, m2)
           (map (\<lambda>j. spec_iowait_pair (pc j)) (filter (\<lambda>j. \<not> spec_stale env time (pc j)) js)))"
      using pr p by (intro ih) simp
    finally show ?thesis
      using False p by (simp add: spec_max_ratio_def)
  qed
qed

lemma sugov_next_freq_shared_loop_stale:
  assumes "distinct js" and "j \<in> set js" and "spec_stale env time (pc j)"
    and "snd (sugov_next_freq_shared_loop env time js pc u m) \<noteq> None"
  shows "iowait_boost (fst (sugov_next_freq_shared_loop env time js pc u m) j) = 0"
  using assms
proof (induction js arbitrary: pc u m)
  case Nil
  then show ?case by simp
next
  case (Cons k js)
  have d: "distinct js" and n: "k \<notin> set js"
    using Cons.prems by simp_all
  show ?case
  proof (cases "j = k")
    case True
    then show ?thesis
      using Cons.prems(3) n
      by (simp add: spec_stale_def Let_def sugov_next_freq_shared_loop_frame)
  next
    case False
    then have j: "j \<in> set js"
      using Cons.prems by simp
    have ih: "\<And>x u m. snd (sugov_next_freq_shared_loop env time js (pc(k := x)) u m) \<noteq> None
         \<Longrightarrow> iowait_boost (fst (sugov_next_freq_shared_loop env time js (pc(k := x)) u m) j) = 0"
    proof -
      fix x u m
      assume a: "snd (sugov_next_freq_shared_loop env time js (pc(k := x)) u m) \<noteq> None"
      have st: "spec_stale env time ((pc(k := x)) j)"
        using False Cons.prems(3) by simp
      show "iowait_boost (fst (sugov_next_freq_shared_loop env time js (pc(k := x)) u m) j) = 0"
        using Cons.IH [where pc = "pc(k := x)", OF d j st a] .
    qed
    show ?thesis
      using Cons.prems(4) ih
      by (auto simp: Let_def split_beta split: if_splits)
  qed
qed

lemma sugov_next_freq_shared_loop_Some:
  assumes "distinct js"
    and "\<not> (\<exists>j\<in>set js. \<not> spec_stale env time (pc j)
              \<and> flags (pc j) AND SCHED_CPUFREQ_DL env \<noteq> 0)"
  shows "\<exists>w. snd (sugov_next_freq_shared_loop env time js pc u m) = Some w"
  using assms
proof (induction js arbitrary: u m)
  case Nil
  then show ?case by simp
next
  case (Cons j js)
  have d: "distinct js" and n: "j \<notin> set js"
    and nodl: "\<not> (\<exists>k\<in>set js. \<not> spec_stale env time (pc k)
              \<and> flags (pc k) AND SCHED_CPUFREQ_DL env \<noteq> 0)"
    and j: "spec_stale env time (pc j) \<or> flags (pc j) AND SCHED_CPUFREQ_DL env = 0"
    using Cons.prems by auto
  have ih: "\<And>u m. \<exists>w. snd (sugov_next_freq_shared_loop env time js pc u m) = Some w"
    using Cons.IH [OF d nodl] .
  show ?case
    using j ih by (auto simp: spec_stale_def Let_def split_beta sugov_next_freq_shared_loop_upd [OF n])
qed

lemma distinct_for_each_cpu_and: "distinct (for_each_cpu_and env a b)"
  by (simp add: for_each_cpu_and_def)

lemma ratio_le_refl: "ratio_le p p"
  by (simp add: ratio_le_def)

lemma ratio_le_trans:
  assumes "pair_in_range q" and "ratio_le p q" and "ratio_le q r"
  shows "ratio_le p r"
proof -
  have "0 < unat (snd q)"
    using assms(1) by (simp add: pair_in_range_def word_pos_unat)
  then show ?thesis
    using assms(2,3) unfolding ratio_le_def by (rule cross_le_trans)
qed

lemma spec_pick_cases: "spec_pick b p = b \<or> spec_pick b p = p"
  by (simp add: spec_pick_def)

lemma spec_pick_ge:
  assumes "pair_in_range b" and "pair_in_range p"
  shows "ratio_le b (spec_pick b p) \<and> ratio_le p (spec_pick b p)"
proof -
  have "snd p * fst b < fst p * snd b
          \<longleftrightarrow> unat (snd p) * unat (fst b) < unat (fst p) * unat (snd b)"
    using assms by (intro cross_mult_less) (simp_all add: pair_in_range_def)
  then show ?thesis
    by (auto simp: spec_pick_def ratio_le_def ac_simps)
qed

lemma spec_max_ratio_max:
  assumes "pair_in_range b" and "\<forall>p\<in>set ps. pair_in_range p"
  shows "pair_in_range (spec_max_ratio b ps)
       \<and> (spec_max_ratio b ps = b \<or> spec_max_ratio b ps \<in> set ps)
       \<and> (\<forall>p\<in>set (b # ps). ratio_le p (spec_max_ratio b ps))"
  using assms
proof (induction ps arbitrary: b)
  case Nil
  then show ?case by (simp add: spec_max_ratio_def ratio_le_refl)
next
  case (Cons p ps)
  have pp: "pair_in_range p" and ps: "\<forall>q\<in>set ps. pair_in_range q"
    using Cons.prems by simp_all
  have pb: "pair_in_range (spec_pick b p)"
    using Cons.prems(1) pp by (rule spec_pick_range)
  note ih = Cons.IH [OF pb ps]
  have eq: "spec_max_ratio b (p # ps) = spec_max_ratio (spec_pick b p) ps"
    by (simp add: spec_max_ratio_def)
  have top: "ratio_le (spec_pick b p) (spec_max_ratio (spec_pick b p) ps)"
    using ih by simp
  have b: "ratio_le b (spec_max_ratio (spec_pick b p) ps)"
    using pb spec_pick_ge [OF Cons.prems(1) pp, THEN conjunct1] top by (rule ratio_le_trans)
  have p: "ratio_le p (spec_max_ratio (spec_pick b p) ps)"
    using pb spec_pick_ge [OF Cons.prems(1) pp, THEN conjunct2] top by (rule ratio_le_trans)
  show ?case
    unfolding eq using ih b p spec_pick_cases [of b p] by auto
qed

lemma get_next_freq_returns:
  "m \<noteq> 0 \<Longrightarrow> \<exists>f0 sg0. get_next_freq env sg u m = Some (f0, sg0)"
  by (simp add: get_next_freq_def Let_def)

lemma example_related_online: "[0, 1, 2, 3] = for_each_cpu_and example_env (related_cpus (policy example_sg_policy))
                (cpu_online_mask example_env)"
  by code_simp

lemma example_spec_next_freq_shared: "spec_next_freq_shared example_env example_pc example_sg_policy 100000040
   = Some (1751953, example_sg_policy\<lparr>cached_raw_freq := 1751953\<rparr>)"
  by (simp add: spec_next_freq_shared_def example_related_online [symmetric] Let_def)
     (simp add: spec_stale_def example_pc_def example_env_def word_sless_alt
       spec_max_ratio_def spec_pick_def spec_iowait_pair_def
       get_next_freq_def Let_def example_sg_policy_def example_policy_def
       freqvar_tipping_point_def UINT_MAX_def example_resolve_def)

lemma example_winner: "spec_max_ratio (0, 1)
       (map (\<lambda>j. spec_iowait_pair (example_pc j))
          (filter (\<lambda>j. \<not> spec_stale example_env 100000040 (example_pc j)) [0, 1, 2, 3]))
     = (800, 1024)"
  by (simp add: spec_stale_def example_pc_def example_env_def word_sless_alt
       spec_max_ratio_def spec_pick_def spec_iowait_pair_def)

text \<open>
  Claim C5. Over the online CPUs \<open>js\<close> of the policy, in increasing order:
  if a CPU that is not stale carries the deadline flag, the result is the maximum
  frequency of the policy and the policy group is unchanged; when the samples of the CPUs
  that are not stale are in range, \<open>sugov_next_freq_shared\<close> returns, and returns the
  frequency and the policy group of the specification's aggregation, which substitutes
  the boost in each core's own pair, picks the greatest ratio by cross-multiplication and
  passes the winner to \<open>get_next_freq\<close> (the code substitutes the boost in the running
  maximum after the comparison, which picks the same pair); without a deadline request
  every stale CPU ends with a boost of zero; and the pair picked is \<open>(0, 1)\<close> or the
  pair of a CPU that is not stale, with a ratio at least that of each such CPU.
\<close>

theorem C5_shared_aggregation:
  assumes js: "js = for_each_cpu_and env (related_cpus (policy sg)) (cpu_online_mask env)"
  shows
   "((\<exists>j\<in>set js. \<not> spec_stale env time (pc j) \<and> flags (pc j) AND SCHED_CPUFREQ_DL env \<noteq> 0)
       \<longrightarrow> map_option (\<lambda>(f, pc', sg'). (f, sg')) (sugov_next_freq_shared env pc sg time)
             = Some (cpuinfo_max_freq (policy sg), sg))
    \<and> ((\<forall>j\<in>set js. \<not> spec_stale env time (pc j) \<longrightarrow> sample_in_range (pc j))
       \<longrightarrow> sugov_next_freq_shared env pc sg time \<noteq> None
         \<and> map_option (\<lambda>(f, pc', sg'). (f, sg')) (sugov_next_freq_shared env pc sg time)
             = spec_next_freq_shared env pc sg time)
    \<and> (\<not> (\<exists>j\<in>set js. \<not> spec_stale env time (pc j)
                \<and> flags (pc j) AND SCHED_CPUFREQ_DL env \<noteq> 0)
        \<and> sugov_next_freq_shared env pc sg time = Some (f, pc', sg')
       \<longrightarrow> (\<forall>j\<in>set js. spec_stale env time (pc j) \<longrightarrow> iowait_boost (pc' j) = 0))
    \<and> ((\<forall>j\<in>set js. \<not> spec_stale env time (pc j) \<longrightarrow> sample_in_range (pc j))
       \<longrightarrow> (spec_max_ratio (0, 1)
               (map (\<lambda>j. spec_iowait_pair (pc j))
                  (filter (\<lambda>j. \<not> spec_stale env time (pc j)) js)) = (0, 1)
            \<or> spec_max_ratio (0, 1)
               (map (\<lambda>j. spec_iowait_pair (pc j))
                  (filter (\<lambda>j. \<not> spec_stale env time (pc j)) js))
                \<in> set (map (\<lambda>j. spec_iowait_pair (pc j))
                  (filter (\<lambda>j. \<not> spec_stale env time (pc j)) js)))
         \<and> (\<forall>j\<in>set js. \<not> spec_stale env time (pc j) \<longrightarrow>
               ratio_le (spec_iowait_pair (pc j))
                 (spec_max_ratio (0, 1)
                   (map (\<lambda>j. spec_iowait_pair (pc j))
                      (filter (\<lambda>j. \<not> spec_stale env time (pc j)) js)))))"
proof -
  define ps where "ps = map (\<lambda>j. spec_iowait_pair (pc j))
                          (filter (\<lambda>j. \<not> spec_stale env time (pc j)) js)"
  define dl where "dl \<longleftrightarrow> (\<exists>j\<in>set js. \<not> spec_stale env time (pc j)
                                \<and> flags (pc j) AND SCHED_CPUFREQ_DL env \<noteq> 0)"
  obtain pc1 r where l: "sugov_next_freq_shared_loop env time js pc 0 1 = (pc1, r)"
    by (cases "sugov_next_freq_shared_loop env time js pc 0 1") auto
  have d: "distinct js"
    unfolding js by (rule distinct_for_each_cpu_and)
  have base: "pair_in_range (0, 1)"
    by (simp add: pair_in_range_def)
  have code: "sugov_next_freq_shared env pc sg time =
      (case r of None \<Rightarrow> Some (cpuinfo_max_freq (policy sg), pc1, sg)
       | Some (u, m) \<Rightarrow> (case get_next_freq env sg u m of None \<Rightarrow> None
                          | Some (f, sg') \<Rightarrow> Some (f, pc1, sg')))"
    using l by (simp add: sugov_next_freq_shared_def js [symmetric] split: option.splits)
  have dl_eq: "list_ex (\<lambda>j. flags (pc j) AND SCHED_CPUFREQ_DL env \<noteq> 0)
                  (filter (\<lambda>j. \<not> spec_stale env time (pc j)) js) \<longleftrightarrow> dl"
    by (auto simp: list_ex_iff dl_def)
  have spec: "spec_next_freq_shared env pc sg time =
      (if dl then Some (cpuinfo_max_freq (policy sg), sg)
       else (case spec_max_ratio (0, 1) ps of (u, m) \<Rightarrow> get_next_freq env sg u m))"
    by (simp add: spec_next_freq_shared_def js [symmetric] Let_def dl_eq ps_def)
  have c1: "dl \<Longrightarrow> map_option (\<lambda>(f, pc', sg'). (f, sg')) (sugov_next_freq_shared env pc sg time)
             = Some (cpuinfo_max_freq (policy sg), sg)"
  proof -
    assume dl
    then have "snd (sugov_next_freq_shared_loop env time js pc 0 1) = None"
      unfolding dl_def by (rule sugov_next_freq_shared_loop_DL [OF d])
    then have "r = None"
      using l by simp
    then show ?thesis
      by (simp add: code)
  qed
  have c2: "sugov_next_freq_shared env pc sg time \<noteq> None
         \<and> map_option (\<lambda>(f, pc', sg'). (f, sg')) (sugov_next_freq_shared env pc sg time)
             = spec_next_freq_shared env pc sg time"
    if rng: "\<forall>j\<in>set js. \<not> spec_stale env time (pc j) \<longrightarrow> sample_in_range (pc j)"
  proof (cases dl)
    case True
    then show ?thesis
      using c1 [OF True] by (auto simp: spec)
  next
    case False
    then have "snd (sugov_next_freq_shared_loop env time js pc 0 1) = Some (spec_max_ratio (0, 1) ps)"
      unfolding dl_def ps_def by (intro sugov_next_freq_shared_loop_spec d rng base)
    then have r: "r = Some (spec_max_ratio (0, 1) ps)"
      using l by simp
    have "\<forall>p\<in>set ps. pair_in_range p"
      using rng by (auto simp: ps_def spec_iowait_pair_range)
    then have "pair_in_range (spec_max_ratio (0, 1) ps)"
      using spec_max_ratio_max [OF base] by blast
    then have nz: "snd (spec_max_ratio (0, 1) ps) \<noteq> 0"
      by (auto simp: pair_in_range_def)
    obtain u m where w: "spec_max_ratio (0, 1) ps = (u, m)"
      by (cases "spec_max_ratio (0, 1) ps") auto
    have "m \<noteq> 0"
      using nz w by simp
    then obtain f0 sg0 where g: "get_next_freq env sg u m = Some (f0, sg0)"
      using get_next_freq_returns by blast
    show ?thesis
      using False by (simp add: code spec r w g)
  qed
  have c3: "\<forall>j\<in>set js. spec_stale env time (pc j) \<longrightarrow> iowait_boost (pc' j) = 0"
    if nd: "\<not> dl" and res: "sugov_next_freq_shared env pc sg time = Some (f, pc', sg')"
  proof -
    have ns: "snd (sugov_next_freq_shared_loop env time js pc 0 1) \<noteq> None"
      using sugov_next_freq_shared_loop_Some [OF d nd [unfolded dl_def], of 0 1] by auto
    have "pc' = pc1"
      using res by (auto simp: code split: option.splits)
    then have pc': "pc' = fst (sugov_next_freq_shared_loop env time js pc 0 1)"
      using l by simp
    show ?thesis
      unfolding pc' using sugov_next_freq_shared_loop_stale [OF d _ _ ns] by blast
  qed
  have c4: "(spec_max_ratio (0, 1) ps = (0, 1) \<or> spec_max_ratio (0, 1) ps \<in> set ps)
         \<and> (\<forall>j\<in>set js. \<not> spec_stale env time (pc j) \<longrightarrow>
               ratio_le (spec_iowait_pair (pc j)) (spec_max_ratio (0, 1) ps))"
    if rng: "\<forall>j\<in>set js. \<not> spec_stale env time (pc j) \<longrightarrow> sample_in_range (pc j)"
  proof -
    have "\<forall>p\<in>set ps. pair_in_range p"
      using rng by (auto simp: ps_def spec_iowait_pair_range)
    from spec_max_ratio_max [OF base this]
    have a: "spec_max_ratio (0, 1) ps = (0, 1) \<or> spec_max_ratio (0, 1) ps \<in> set ps"
      and b: "\<forall>p\<in>set ps. ratio_le p (spec_max_ratio (0, 1) ps)"
      by simp_all
    show ?thesis
      using a b by (auto simp: ps_def)
  qed
  show ?thesis
    using c1 c2 c3 c4 unfolding dl_def ps_def by blast
qed

text \<open>
  On the four example cores at 100000040 ns: core 2 is stale and loses its boost, the
  pair of core 0 wins against that of core 1 and the boost of core 3, and the frequency
  is the one resolved for 1751953; with a deadline request on core 1 the result is the
  maximum 1794000.
\<close>

theorem C5_witness:
  "[0, 1, 2, 3] = for_each_cpu_and example_env (related_cpus (policy example_sg_policy))
                    (cpu_online_mask example_env)
   \<and> \<not> spec_stale example_env 100000040 (example_pc 0) \<and> sample_in_range (example_pc 0)
   \<and> \<not> spec_stale example_env 100000040 (example_pc 1) \<and> sample_in_range (example_pc 1)
   \<and> spec_stale example_env 100000040 (example_pc 2)
   \<and> \<not> spec_stale example_env 100000040 (example_pc 3) \<and> sample_in_range (example_pc 3)
   \<and> sugov_next_freq_shared example_env example_pc example_sg_policy 100000040 \<noteq> None
   \<and> map_option (\<lambda>(f, pc', sg'). (f, sg'))
        (sugov_next_freq_shared example_env example_pc example_sg_policy 100000040)
       = spec_next_freq_shared example_env example_pc example_sg_policy 100000040
   \<and> spec_next_freq_shared example_env example_pc example_sg_policy 100000040
       = Some (1751953, example_sg_policy\<lparr>cached_raw_freq := 1751953\<rparr>)
   \<and> spec_max_ratio (0, 1)
       (map (\<lambda>j. spec_iowait_pair (example_pc j))
          (filter (\<lambda>j. \<not> spec_stale example_env 100000040 (example_pc j)) [0, 1, 2, 3]))
       = (800, 1024)
   \<and> ratio_le (spec_iowait_pair (example_pc 0)) (800, 1024)
   \<and> ratio_le (spec_iowait_pair (example_pc 1)) (800, 1024)
   \<and> ratio_le (spec_iowait_pair (example_pc 3)) (800, 1024)
   \<and> spec_iowait_pair (example_pc 3) = (448500, 1794000)
   \<and> \<not> (\<exists>j\<in>set [0, 1, 2, 3]. \<not> spec_stale example_env 100000040 (example_pc j)
           \<and> flags (example_pc j) AND SCHED_CPUFREQ_DL example_env \<noteq> 0)
   \<and> iowait_boost (example_pc 2) = 897000
   \<and> (\<exists>f pc' sg'. sugov_next_freq_shared example_env example_pc example_sg_policy 100000040
                      = Some (f, pc', sg') \<and> iowait_boost (pc' 2) = 0)
   \<and> (\<exists>j\<in>set [0, 1, 2, 3]. \<not> spec_stale example_env 100000040 (example_pc_dl j)
           \<and> flags (example_pc_dl j) AND SCHED_CPUFREQ_DL example_env \<noteq> 0)
   \<and> map_option (\<lambda>(f, pc', sg'). (f, sg'))
        (sugov_next_freq_shared example_env example_pc_dl example_sg_policy 100000040)
       = Some (cpuinfo_max_freq (policy example_sg_policy), example_sg_policy)"
proof -
  have fresh: "\<not> spec_stale example_env 100000040 (example_pc 0)"
    "\<not> spec_stale example_env 100000040 (example_pc 1)"
    "\<not> spec_stale example_env 100000040 (example_pc 3)"
    and st: "spec_stale example_env 100000040 (example_pc 2)"
    and b2: "iowait_boost (example_pc 2) = 897000"
    by (simp_all add: spec_stale_def example_pc_def example_env_def word_sless_alt)
  have inr: "sample_in_range (example_pc 0)" "sample_in_range (example_pc 1)"
    "sample_in_range (example_pc 3)"
    by (simp_all add: sample_in_range_def example_pc_def)
  have p3: "spec_iowait_pair (example_pc 3) = (448500, 1794000)"
    by (simp add: spec_iowait_pair_def example_pc_def)
  have rng: "\<forall>j\<in>set [0, 1, 2, 3]. \<not> spec_stale example_env 100000040 (example_pc j)
         \<longrightarrow> sample_in_range (example_pc j)"
    using inr st by simp
  have nodl: "\<not> (\<exists>j\<in>set [0, 1, 2, 3]. \<not> spec_stale example_env 100000040 (example_pc j)
           \<and> flags (example_pc j) AND SCHED_CPUFREQ_DL example_env \<noteq> 0)"
    by (simp add: example_pc_def example_env_def)
  have dl: "\<exists>j\<in>set [0, 1, 2, 3]. \<not> spec_stale example_env 100000040 (example_pc_dl j)
           \<and> flags (example_pc_dl j) AND SCHED_CPUFREQ_DL example_env \<noteq> 0"
    by (simp add: spec_stale_def example_pc_dl_def example_pc_def example_env_def word_sless_alt)
  note a = C5_shared_aggregation [where time = 100000040 and pc = example_pc,
      OF example_related_online]
  have ne: "sugov_next_freq_shared example_env example_pc example_sg_policy 100000040 \<noteq> None"
    and eq: "map_option (\<lambda>(f, pc', sg'). (f, sg'))
        (sugov_next_freq_shared example_env example_pc example_sg_policy 100000040)
       = spec_next_freq_shared example_env example_pc example_sg_policy 100000040"
    and mx: "\<forall>j\<in>set [0, 1, 2, 3]. \<not> spec_stale example_env 100000040 (example_pc j) \<longrightarrow>
         ratio_le (spec_iowait_pair (example_pc j)) (800, 1024)"
    using a rng unfolding example_winner by blast+
  have mx': "ratio_le (spec_iowait_pair (example_pc 0)) (800, 1024)"
    "ratio_le (spec_iowait_pair (example_pc 1)) (800, 1024)"
    "ratio_le (spec_iowait_pair (example_pc 3)) (800, 1024)"
    using mx fresh by simp_all
  from ne obtain f pc' sg' where
    r: "sugov_next_freq_shared example_env example_pc example_sg_policy 100000040
          = Some (f, pc', sg')"
    by auto
  have "iowait_boost (pc' 2) = 0"
    using C5_shared_aggregation [where time = 100000040 and pc = example_pc and f = f
        and pc' = pc' and sg' = sg', OF example_related_online] nodl r st
    by simp
  with r have cl: "\<exists>f pc' sg'. sugov_next_freq_shared example_env example_pc example_sg_policy
        100000040 = Some (f, pc', sg') \<and> iowait_boost (pc' 2) = 0"
    by blast
  have mxf: "map_option (\<lambda>(f, pc', sg'). (f, sg'))
        (sugov_next_freq_shared example_env example_pc_dl example_sg_policy 100000040)
       = Some (cpuinfo_max_freq (policy example_sg_policy), example_sg_policy)"
    using C5_shared_aggregation [where time = 100000040 and pc = example_pc_dl,
        OF example_related_online] dl by blast
  show ?thesis
    using example_related_online fresh inr st ne eq example_spec_next_freq_shared
      example_winner mx' p3 nodl b2 cl dl mxf
    by blast
qed

end
